theory Spec2Isabelle
  imports Main "HOL-Library.Sublist" "HOL-Library.Multiset"
begin

section \<open>Findings and the score model of \<open>AdvancedCodeAnalyzer\<close>\<close>

text \<open>
  The objects pushed by the detectors of \<open>src/lib/AdvancedCodeAnalyzer.js\<close>. A severity is
  a JavaScript string; \<open>line\<close> is \<open>path.node.loc?.start.line\<close>, absent when the node carries
  no location.
\<close>

record finding =
  ftype :: string
  severity :: string
  line :: "nat option"
  message :: string
  suggestion :: string

record heavy_import =
  library :: string
  estimatedSize :: string
  alternative :: string

record import_info =
  source :: string
  specifiers :: "string option list"
  isDefaultImport :: bool
  isNamespaceImport :: bool

text \<open>
  The value returned by \<open>analyzeBundleImpact\<close>. \<open>calculatePerformanceScore\<close> and the
  command-line tool both guard \<open>heavyImports\<close> against being absent, so the field is optional.
\<close>

record bundle_impact =
  bundle_imports :: "import_info list"
  heavyImports :: "heavy_import list option"
  bundle_error :: "string option"

text \<open>
  The value returned by \<open>analyzeReactComponent\<close>; an issue or a recommendation is modelled by
  its \<open>message\<close>, the one field the command-line tool reads of it.
\<close>

record react_analysis =
  issues :: "string option list"
  recommendations :: "string option list"
  react_error :: "string option"

record performance =
  react :: "react_analysis option"
  bottlenecks :: "finding list option"

text \<open>The \<open>results\<close> object of \<open>analyzeCode\<close> (its \<open>timestamp\<close>, a clock reading, is left out).\<close>

record results =
  filePath :: string
  fileType :: string
  performance :: performance
  bundleImpact :: bundle_impact
  memoryLeaks :: "finding list"
  results_recommendations :: "string list"
  performanceScore :: "int option"

text \<open>
  \<open>calculatePerformanceScore\<close> (lines 404--427). The two \<open>forEach\<close> loops are folds over the
  lists in their order; \<open>x || []\<close> reads an absent list as empty. The numbers involved are
  small integers, on which JavaScript's doubles are exact.
\<close>

definition bottleneck_step :: "finding \<Rightarrow> int \<Rightarrow> int" where
  "bottleneck_step bottleneck score =
     (if severity bottleneck = ''high'' then score - 15
      else if severity bottleneck = ''medium'' then score - 8
      else score - 3)"

definition leak_step :: "finding \<Rightarrow> int \<Rightarrow> int" where
  "leak_step leak score =
     (if severity leak = ''high'' then score - 12
      else if severity leak = ''medium'' then score - 6
      else score - 2)"

definition or_empty :: "'a list option \<Rightarrow> 'a list" where
  "or_empty x = (case x of None \<Rightarrow> [] | Some xs \<Rightarrow> xs)"

definition score_of ::
  "finding list option \<Rightarrow> finding list \<Rightarrow> heavy_import list option \<Rightarrow> int" where
  "score_of bs leaks his =
     (let score = 100;
          score = fold bottleneck_step (or_empty bs) score;
          score = fold leak_step leaks score;
          score = score - int (length (or_empty his)) * 5
      in max 0 (min 100 score))"

definition calculatePerformanceScore :: "results \<Rightarrow> int" where
  "calculatePerformanceScore r =
     score_of (bottlenecks (performance r)) (memoryLeaks r) (heavyImports (bundleImpact r))"

text \<open>How many findings of a list carry a given severity, and how many carry neither
  \<open>high\<close> nor \<open>medium\<close> (the \<open>else\<close> branch of both loops, which is where \<open>low\<close> lands).\<close>

definition count_sev :: "string \<Rightarrow> finding list \<Rightarrow> int" where
  "count_sev s fs = int (length (filter (\<lambda>f. severity f = s) fs))"

definition count_rest :: "finding list \<Rightarrow> int" where
  "count_rest fs =
     int (length (filter (\<lambda>f. severity f \<noteq> ''high'' \<and> severity f \<noteq> ''medium'') fs))"

section \<open>JavaScript strings\<close>

text \<open>
  A JavaScript string is the list of its UTF-16 code units; the model has the strings
  whose code units are below 256, which covers every string the analyzer compares with.
  \<open>source.includes(lib)\<close>: \<open>lib\<close> occurs in \<open>source\<close> as a contiguous run of code units.
\<close>

fun str_includes :: "string \<Rightarrow> string \<Rightarrow> bool" where
  "str_includes [] lib = (lib = [])"
| "str_includes (c # s) lib = (prefix lib (c # s) \<or> str_includes s lib)"

definition digit_char :: "nat \<Rightarrow> char" where
  "digit_char d = ''0123456789'' ! d"

text \<open>The decimal text a template literal \<open>${n}\<close> produces for a non-negative integer.\<close>

fun string_of_nat :: "nat \<Rightarrow> string" where
  "string_of_nat n =
     (if n < 10 then [digit_char n] else string_of_nat (n div 10) @ [digit_char (n mod 10)])"

declare string_of_nat.simps [simp del]

section \<open>The syntax tree read by the detectors\<close>

text \<open>
  The nodes of the tree that \<open>babel.parse\<close> returns, one constructor for each node type
  whose fields the analyzer reads, with the fields in the order in which
  \<open>@babel/traverse\<close> visits them. \<open>Other\<close> stands for every other node type: its type name and
  its child nodes. The first argument of \<open>CallExpression\<close> and of \<open>ForStatement\<close> is
  \<open>loc?.start.line\<close>, the only position the analyzer reads. The list of a \<open>Program\<close> or of a
  \<open>BlockStatement\<close> is its directives followed by its body.
\<close>

datatype node =
    Identifier string
  | StringLiteral string
  | MemberExpression node node
  | CallExpression "nat option" node "node list"
  | ExpressionStatement node
  | BlockStatement "node list"
  | ForStatement "nat option" "node option" "node option" "node option" node
  | WhileStatement node node
  | DoWhileStatement node node
  | FunctionDeclaration "node option" "node list" node
  | ImportSpecifier node node
  | ImportDefaultSpecifier node
  | ImportNamespaceSpecifier node
  | ImportDeclaration "node list" node
  | Program "node list"
  | File node
  | Other string "node list"

text \<open>\<open>node.type\<close>.\<close>

fun ntype :: "node \<Rightarrow> string" where
  "ntype (Identifier _) = ''Identifier''"
| "ntype (StringLiteral _) = ''StringLiteral''"
| "ntype (MemberExpression _ _) = ''MemberExpression''"
| "ntype (CallExpression _ _ _) = ''CallExpression''"
| "ntype (ExpressionStatement _) = ''ExpressionStatement''"
| "ntype (BlockStatement _) = ''BlockStatement''"
| "ntype (ForStatement _ _ _ _ _) = ''ForStatement''"
| "ntype (WhileStatement _ _) = ''WhileStatement''"
| "ntype (DoWhileStatement _ _) = ''DoWhileStatement''"
| "ntype (FunctionDeclaration _ _ _) = ''FunctionDeclaration''"
| "ntype (ImportSpecifier _ _) = ''ImportSpecifier''"
| "ntype (ImportDefaultSpecifier _) = ''ImportDefaultSpecifier''"
| "ntype (ImportNamespaceSpecifier _) = ''ImportNamespaceSpecifier''"
| "ntype (ImportDeclaration _ _) = ''ImportDeclaration''"
| "ntype (Program _) = ''Program''"
| "ntype (File _) = ''File''"
| "ntype (Other t _) = t"

definition opt_list :: "'a option \<Rightarrow> 'a list" where
  "opt_list x = (case x of None \<Rightarrow> [] | Some y \<Rightarrow> [y])"

text \<open>The child nodes of a node, in visiting order (the node type's visitor keys).\<close>

fun children :: "node \<Rightarrow> node list" where
  "children (Identifier _) = []"
| "children (StringLiteral _) = []"
| "children (MemberExpression obj prop) = [obj, prop]"
| "children (CallExpression _ callee args) = callee # args"
| "children (ExpressionStatement e) = [e]"
| "children (BlockStatement body) = body"
| "children (ForStatement _ init test update body) =
     opt_list init @ opt_list test @ opt_list update @ [body]"
| "children (WhileStatement test body) = [test, body]"
| "children (DoWhileStatement body test) = [body, test]"
| "children (FunctionDeclaration ident params body) = opt_list ident @ params @ [body]"
| "children (ImportSpecifier imported local) = [imported, local]"
| "children (ImportDefaultSpecifier local) = [local]"
| "children (ImportNamespaceSpecifier local) = [local]"
| "children (ImportDeclaration specs src) = specs @ [src]"
| "children (Program body) = body"
| "children (File program) = [program]"
| "children (Other _ cs) = cs"

text \<open>Field reads; a field the node does not have reads as \<open>undefined\<close> (\<open>None\<close>).\<close>

fun callee :: "node \<Rightarrow> node option" where
  "callee (CallExpression _ c _) = Some c"
| "callee _ = None"

fun object :: "node \<Rightarrow> node option" where
  "object (MemberExpression obj _) = Some obj"
| "object _ = None"

fun property :: "node \<Rightarrow> node option" where
  "property (MemberExpression _ prop) = Some prop"
| "property _ = None"

fun name :: "node \<Rightarrow> string option" where
  "name (Identifier s) = Some s"
| "name _ = None"

fun loc_start_line :: "node \<Rightarrow> nat option" where
  "loc_start_line (CallExpression l _ _) = l"
| "loc_start_line (ForStatement l _ _ _ _) = l"
| "loc_start_line _ = None"

text \<open>Syntax-tree nodes of the parser carry no \<open>parent\<close> field.\<close>

definition node_parent :: "node \<Rightarrow> node option" where
  "node_parent n = None"

text \<open>
  A \<open>NodePath\<close>: the node and the nodes above it, nearest first. \<open>path.parent\<close> is the parent
  \<^emph>\<open>node\<close>.
\<close>

record path =
  node :: node
  ancestors :: "node list"

definition parent :: "path \<Rightarrow> node option" where
  "parent p = (case ancestors p of [] \<Rightarrow> None | a # _ \<Rightarrow> Some a)"

text \<open>A weight that every node has more of than its children together: the measure by
  which the traversal terminates.\<close>

definition node_weight :: "node \<Rightarrow> nat" where
  "node_weight n = 5 * size n + 1"

lemma sum_list_node_weight: "sum_list (map node_weight cs) \<le> 5 * size_list size cs"
  by (induction cs) (auto simp: node_weight_def)

lemma children_weight: "sum_list (map node_weight (children n)) < node_weight n"
proof (cases n)
  case (CallExpression l c args)
  then show ?thesis
    using sum_list_node_weight [of args] by (simp add: node_weight_def)
next
  case (BlockStatement body)
  then show ?thesis
    using sum_list_node_weight [of body] by (simp add: node_weight_def)
next
  case (FunctionDeclaration ident params body)
  then show ?thesis
    using sum_list_node_weight [of params]
    by (simp add: node_weight_def opt_list_def split: option.splits)
next
  case (ImportDeclaration specs src)
  then show ?thesis
    using sum_list_node_weight [of specs] by (simp add: node_weight_def)
next
  case (Program body)
  then show ?thesis
    using sum_list_node_weight [of body] by (simp add: node_weight_def)
next
  case (Other t cs)
  then show ?thesis
    using sum_list_node_weight [of cs] by (simp add: node_weight_def)
qed (simp_all add: node_weight_def opt_list_def split: option.splits)

text \<open>
  The paths below a node in the order \<open>traverse\<close> enters them: each child, then what lies
  below it, then the next child. The node itself is not among them.
\<close>

function paths_from :: "node list \<Rightarrow> node \<Rightarrow> path list"
  and paths_list :: "node list \<Rightarrow> node list \<Rightarrow> path list" where
  "paths_from anc n = paths_list (n # anc) (children n)"
| "paths_list anc [] = []"
| "paths_list anc (c # cs) =
     \<lparr>node = c, ancestors = anc\<rparr> # paths_from anc c @ paths_list anc cs"
  by pat_completeness auto
termination
proof (relation "measure (\<lambda>x. case x of
          Inl (anc, n) \<Rightarrow> 2 * node_weight n
        | Inr (anc, cs) \<Rightarrow> 2 * sum_list (map node_weight cs) + 1)", goal_cases)
  case 1
  show ?case by simp
next
  case (2 anc n)
  show ?case using children_weight [of n] by simp
next
  case (3 anc c cs)
  show ?case by simp
next
  case (4 anc c cs)
  show ?case by (simp add: node_weight_def)
qed

section \<open>Traversal with a visitor\<close>

text \<open>
  What a handler can throw. \<open>babel.parse\<close> throws a \<open>SyntaxError\<close>; reading a property of
  \<open>undefined\<close>, or calling a method an object does not have, throws a \<open>TypeError\<close>. Both carry
  their message.
\<close>

datatype error = SyntaxError string | TypeError string

fun error_message :: "error \<Rightarrow> string" where
  "error_message (SyntaxError m) = m"
| "error_message (TypeError m) = m"

text \<open>
  \<open>traverse(ast, visitor, scope, state)\<close> calls each handler as \<open>fn.call(state, path, state)\<close>:
  inside a handler written as a method, \<open>this\<close> is the traversal's \<open>state\<close>, not the object
  the enclosing method was called on. Class bodies are strict code, so with no \<open>state\<close>
  argument \<open>this\<close> is \<open>undefined\<close>.
\<close>

datatype receiver = Undefined | Analyzer

type_synonym 's handler = "receiver \<Rightarrow> path \<Rightarrow> 's \<Rightarrow> error + 's"

text \<open>
  A visitor is an object literal keyed by node type. Written with map updates in the
  order of the literal's properties, a key that occurs twice keeps its last handler, as
  in JavaScript.
\<close>

type_synonym 's visitor = "string \<rightharpoonup> 's handler"

fun visit :: "'s visitor \<Rightarrow> receiver \<Rightarrow> path list \<Rightarrow> 's \<Rightarrow> error + 's" where
  "visit v this [] s = Inr s"
| "visit v this (p # ps) s =
     (case v (ntype (node p)) of
        None \<Rightarrow> visit v this ps s
      | Some h \<Rightarrow> (case h this p s of Inl e \<Rightarrow> Inl e | Inr s' \<Rightarrow> visit v this ps s'))"

text \<open>\<open>traverse(ast, visitor)\<close> and \<open>path.traverse(visitor)\<close>: no state is passed.\<close>

definition traverse :: "node \<Rightarrow> 's visitor \<Rightarrow> 's \<Rightarrow> error + 's" where
  "traverse ast v s = visit v Undefined (paths_from [] ast) s"

definition path_traverse :: "path \<Rightarrow> 's visitor \<Rightarrow> 's \<Rightarrow> error + 's" where
  "path_traverse p v s = visit v Undefined (paths_from (ancestors p) (node p)) s"

text \<open>The message of V8 for a property read on \<open>undefined\<close>.\<close>

definition undefined_read :: "string \<Rightarrow> error" where
  "undefined_read prop =
     TypeError (''Cannot read properties of undefined (reading '' @ [CHR 0x27] @ prop
                @ [CHR 0x27] @ '')'')"

definition not_a_function :: "string \<Rightarrow> error" where
  "not_a_function what = TypeError (what @ '' is not a function'')"

section \<open>Helper methods of \<open>AdvancedCodeAnalyzer\<close>\<close>

text \<open>\<open>list.includes(x)\<close> where \<open>x\<close> may be \<open>undefined\<close>: no list of names contains \<open>undefined\<close>.\<close>

definition includes_name :: "string list \<Rightarrow> string option \<Rightarrow> bool" where
  "includes_name names x = (case x of None \<Rightarrow> False | Some s \<Rightarrow> s \<in> set names)"

text \<open>\<open>callee.property.name\<close> of a member access; \<open>undefined\<close> when the property is no identifier.\<close>

definition property_name :: "node \<Rightarrow> string option" where
  "property_name c = (case property c of None \<Rightarrow> None | Some pr \<Rightarrow> name pr)"

definition isReactComponent :: "node \<Rightarrow> bool" where
  "isReactComponent n =
     (case n of
        FunctionDeclaration (Some ident) _ _ \<Rightarrow>
          (case name ident of
             Some (c # _) \<Rightarrow> c \<in> set ''ABCDEFGHIJKLMNOPQRSTUVWXYZ''
           | _ \<Rightarrow> False)
      | _ \<Rightarrow> False)"

definition isHook :: "node \<Rightarrow> bool" where
  "isHook n =
     (case n of
        CallExpression _ (Identifier nm) _ \<Rightarrow> prefix ''use'' nm
      | _ \<Rightarrow> False)"

definition heavyLibs :: "string list" where
  "heavyLibs = [''lodash'', ''moment'', ''axios'', ''jquery'', ''bootstrap'',
                ''material-ui'', ''antd'', ''react-router-dom'']"

definition isHeavyLibrary :: "string \<Rightarrow> bool" where
  "isHeavyLibrary src = list_ex (\<lambda>lib. str_includes src lib) heavyLibs"

text \<open>The loop \<open>for (const [lib, v] of Object.entries(table)) if (source.includes(lib)) return v\<close>
  over a table in the order of its properties, with the value returned after the loop.\<close>

fun first_included :: "(string \<times> string) list \<Rightarrow> string \<Rightarrow> string \<Rightarrow> string" where
  "first_included [] src dflt = dflt"
| "first_included ((lib, v) # rest) src dflt =
     (if str_includes src lib then v else first_included rest src dflt)"

definition sizes :: "(string \<times> string) list" where
  "sizes = [(''lodash'', ''70KB''), (''moment'', ''67KB''), (''jquery'', ''87KB''),
            (''bootstrap'', ''158KB''), (''material-ui'', ''300KB+''), (''antd'', ''500KB+'')]"

definition getLibrarySize :: "string \<Rightarrow> string" where
  "getLibrarySize src = first_included sizes src ''Unknown''"

definition alternatives :: "(string \<times> string) list" where
  "alternatives =
     [(''lodash'', ''Use native ES6 methods or lodash-es for tree shaking''),
      (''moment'', ''Use date-fns or dayjs (2KB vs 67KB)''),
      (''jquery'', ''Use vanilla JavaScript or modern alternatives''),
      (''bootstrap'', ''Use Tailwind CSS or CSS Modules''),
      (''material-ui'', ''Use Mantine or Chakra UI (lighter alternatives)''),
      (''antd'', ''Use individual component imports'')]"

definition suggestAlternative :: "string \<Rightarrow> string" where
  "suggestAlternative src = first_included alternatives src ''Consider lighter alternatives''"

definition loopTypes :: "string list" where
  "loopTypes = [''ForStatement'', ''WhileStatement'', ''DoWhileStatement'']"

text \<open>
  \<open>hasNestedLoop\<close> (lines 260--270). The key \<open>'ForStatement|WhileStatement|DoWhileStatement'\<close>
  registers one handler for the three node types. The handler does not use \<open>this\<close>. Two
  paths are the same object exactly when they are the same node at the same place.
\<close>

definition nestedHandler :: "path \<Rightarrow> bool handler" where
  "nestedHandler path this innerPath hasNested =
     Inr (if innerPath \<noteq> path then True else hasNested)"

definition hasNestedLoop_visitor :: "path \<Rightarrow> bool visitor" where
  "hasNestedLoop_visitor path =
     [''ForStatement'' \<mapsto> nestedHandler path,
      ''WhileStatement'' \<mapsto> nestedHandler path,
      ''DoWhileStatement'' \<mapsto> nestedHandler path]"

definition hasNestedLoop :: "path \<Rightarrow> error + bool" where
  "hasNestedLoop path = path_traverse path (hasNestedLoop_visitor path) False"

definition chainMethods :: "string list" where
  "chainMethods = [''map'', ''filter'', ''reduce'', ''forEach'', ''find'', ''some'', ''every'']"

definition isArrayMethodChain :: "path \<Rightarrow> bool" where
  "isArrayMethodChain path =
     (case callee (node path) of
        Some (MemberExpression obj prop) \<Rightarrow> includes_name chainMethods (name prop)
      | _ \<Rightarrow> False)"

text \<open>
  The loop of \<open>getChainLength\<close> (lines 279--295): one more for each call whose callee is a
  member access, going on to the callee's object while that is a call.
\<close>

fun chain_loop :: "node \<Rightarrow> nat \<Rightarrow> nat" where
  "chain_loop (CallExpression l (MemberExpression obj prop) args) len =
     (if ntype obj = ''CallExpression'' then chain_loop obj (len + 1) else len + 1)"
| "chain_loop _ len = len"

definition getChainLength :: "path \<Rightarrow> nat" where
  "getChainLength path = chain_loop (node path) 0"

definition domMethods :: "string list" where
  "domMethods = [''querySelector'', ''getElementById'', ''appendChild'',
                 ''innerHTML'', ''createElement'', ''setAttribute'']"

definition isDOMManipulation :: "path \<Rightarrow> bool" where
  "isDOMManipulation path =
     (case callee (node path) of
        Some (MemberExpression obj prop) \<Rightarrow> includes_name domMethods (name prop)
      | Some (Identifier nm) \<Rightarrow> nm \<in> set domMethods
      | _ \<Rightarrow> False)"

text \<open>
  \<open>isInLoop\<close> (lines 310--319) starts at \<open>path.parent\<close>, a node, and goes on to
  \<open>parent.parent\<close>, a field of that node.
\<close>

function isInLoop_loop :: "node option \<Rightarrow> bool" where
  "isInLoop_loop None = False"
| "isInLoop_loop (Some p) =
     (if ntype p \<in> set loopTypes then True else isInLoop_loop (node_parent p))"
  by pat_completeness auto
termination
  by (relation "measure (\<lambda>x. case x of None \<Rightarrow> 0 | Some _ \<Rightarrow> 1)")
     (auto simp: node_parent_def)

definition isInLoop :: "path \<Rightarrow> bool" where
  "isInLoop path = isInLoop_loop (parent path)"

definition isEventListener :: "node \<Rightarrow> bool" where
  "isEventListener n =
     (case callee n of
        Some (MemberExpression obj prop) \<Rightarrow> name prop = Some ''addEventListener''
      | _ \<Rightarrow> False)"

definition timerMethods :: "string list" where
  "timerMethods = [''setTimeout'', ''setInterval'', ''requestAnimationFrame'']"

definition isTimer :: "node \<Rightarrow> bool" where
  "isTimer n =
     (case callee n of
        Some (Identifier nm) \<Rightarrow> nm \<in> set timerMethods
      | _ \<Rightarrow> False)"

subsection \<open>Scopes\<close>

text \<open>
  \<open>path.scope\<close> is the scope of the nearest path, from the path itself upwards, that
  \<open>isScope\<close> holds of; \<open>scope.block\<close> is that path's node. The three lists are the node types
  of the aliases \<open>Scopable\<close>, \<open>Function\<close> and \<open>Pattern\<close> of \<open>@babel/types\<close>. A block that is
  the body of a function or of a catch clause shares their scope.
\<close>

definition scopableTypes :: "string list" where
  "scopableTypes =
     [''BlockStatement'', ''CatchClause'', ''DoWhileStatement'', ''ForInStatement'',
      ''ForStatement'', ''FunctionDeclaration'', ''FunctionExpression'', ''Program'',
      ''ObjectMethod'', ''SwitchStatement'', ''WhileStatement'', ''ArrowFunctionExpression'',
      ''ClassExpression'', ''ClassDeclaration'', ''ForOfStatement'', ''ClassMethod'',
      ''ClassPrivateMethod'', ''StaticBlock'', ''TSModuleBlock'']"

definition functionTypes :: "string list" where
  "functionTypes =
     [''FunctionDeclaration'', ''FunctionExpression'', ''ObjectMethod'',
      ''ArrowFunctionExpression'', ''ClassMethod'', ''ClassPrivateMethod'']"

definition patternTypes :: "string list" where
  "patternTypes = [''AssignmentPattern'', ''ArrayPattern'', ''ObjectPattern'']"

definition isScope :: "node \<Rightarrow> node option \<Rightarrow> bool" where
  "isScope n par =
     (let underFunction =
            (case par of
               None \<Rightarrow> False
             | Some p \<Rightarrow> ntype p \<in> set functionTypes \<or> ntype p = ''CatchClause'')
      in if ntype n = ''BlockStatement'' \<and> underFunction then False
         else if ntype n \<in> set patternTypes \<and> underFunction then True
         else ntype n \<in> set scopableTypes)"

fun find_scope :: "node list \<Rightarrow> (node \<times> node list) option" where
  "find_scope [] = None"
| "find_scope (n # outer) =
     (if isScope n (case outer of [] \<Rightarrow> None | a # _ \<Rightarrow> Some a) then Some (n, outer)
      else find_scope outer)"

text \<open>The path of \<open>path.scope.block\<close>, when the path lies in a scope.\<close>

definition scope_path :: "path \<Rightarrow> path option" where
  "scope_path p =
     (case find_scope (node p # ancestors p) of
        None \<Rightarrow> None
      | Some (n, outer) \<Rightarrow> Some \<lparr>node = n, ancestors = outer\<rparr>)"

text \<open>\<open>scope.traverse(scope.block, visitor)\<close>: the paths below the scope's block, no state.\<close>

definition scope_traverse :: "path \<Rightarrow> 's visitor \<Rightarrow> 's \<Rightarrow> error + 's" where
  "scope_traverse p v s =
     (case scope_path p of
        None \<Rightarrow> Inl (undefined_read ''traverse'')
      | Some b \<Rightarrow> path_traverse b v s)"

definition eventCleanupHandler :: "bool handler" where
  "eventCleanupHandler this innerPath hasCleanup =
     Inr (case callee (node innerPath) of
            Some (MemberExpression obj prop) \<Rightarrow>
              (if name prop = Some ''removeEventListener'' then True else hasCleanup)
          | _ \<Rightarrow> hasCleanup)"

definition hasEventCleanup :: "path \<Rightarrow> error + bool" where
  "hasEventCleanup path =
     scope_traverse path [''CallExpression'' \<mapsto> eventCleanupHandler] False"

definition timerCleanupHandler :: "bool handler" where
  "timerCleanupHandler this innerPath hasCleanup =
     Inr (case callee (node innerPath) of
            Some (Identifier nm) \<Rightarrow>
              (if nm \<in> set [''clearTimeout'', ''clearInterval'', ''cancelAnimationFrame'']
               then True else hasCleanup)
          | _ \<Rightarrow> hasCleanup)"

definition hasTimerCleanup :: "path \<Rightarrow> error + bool" where
  "hasTimerCleanup path =
     scope_traverse path [''CallExpression'' \<mapsto> timerCleanupHandler] False"

section \<open>The detectors of \<open>AdvancedCodeAnalyzer\<close>\<close>

text \<open>
  \<open>babel.parse(code, {sourceType: 'module', plugins})\<close> is a parameter of the model: it
  takes the plug-in list and the text and returns the \<open>File\<close> node or throws.
\<close>

type_synonym parser = "string list \<Rightarrow> string \<Rightarrow> error + node"

subsection \<open>\<open>analyzeBundleImpact\<close> (lines 58--95)\<close>

fun source_value :: "node \<Rightarrow> string option" where
  "source_value (ImportDeclaration specs (StringLiteral s)) = Some s"
| "source_value _ = None"

fun import_specifiers :: "node \<Rightarrow> node list option" where
  "import_specifiers (ImportDeclaration specs src) = Some specs"
| "import_specifiers _ = None"

fun local_name :: "node \<Rightarrow> string option" where
  "local_name (ImportSpecifier imported local) = name local"
| "local_name (ImportDefaultSpecifier local) = name local"
| "local_name (ImportNamespaceSpecifier local) = name local"
| "local_name _ = None"

text \<open>
  The handler pushes the import before it calls \<open>this.isHeavyLibrary\<close>. An import
  declaration without a string source or a specifier list is no parser output; reading
  its fields throws.
\<close>

definition bundle_ImportDeclaration :: "(import_info list \<times> heavy_import list) handler" where
  "bundle_ImportDeclaration this path st =
     (case (source_value (node path), import_specifiers (node path)) of
        (Some src, Some specs) \<Rightarrow>
          (let imps = fst st @
                 [\<lparr>source = src,
                   specifiers = map local_name specs,
                   isDefaultImport = list_ex (\<lambda>s. ntype s = ''ImportDefaultSpecifier'') specs,
                   isNamespaceImport =
                     list_ex (\<lambda>s. ntype s = ''ImportNamespaceSpecifier'') specs\<rparr>]
           in case this of
                Undefined \<Rightarrow> Inl (undefined_read ''isHeavyLibrary'')
              | Analyzer \<Rightarrow>
                  (if isHeavyLibrary src
                   then Inr (imps, snd st @
                          [\<lparr>library = src, estimatedSize = getLibrarySize src,
                            alternative = suggestAlternative src\<rparr>])
                   else Inr (imps, snd st)))
      | _ \<Rightarrow> Inl (undefined_read ''value''))"

definition analyzeBundleImpact :: "parser \<Rightarrow> string \<Rightarrow> string \<Rightarrow> bundle_impact" where
  "analyzeBundleImpact parse code file =
     (case parse [''typescript'', ''jsx''] code of
        Inl e \<Rightarrow>
          \<lparr>bundle_imports = [], heavyImports = Some [], bundle_error = Some (error_message e)\<rparr>
      | Inr ast \<Rightarrow>
          (case traverse ast [''ImportDeclaration'' \<mapsto> bundle_ImportDeclaration] ([], []) of
             Inl e \<Rightarrow>
               \<lparr>bundle_imports = [], heavyImports = Some [],
                bundle_error = Some (error_message e)\<rparr>
           | Inr (imps, heavy) \<Rightarrow>
               \<lparr>bundle_imports = imps, heavyImports = Some heavy, bundle_error = None\<rparr>))"

subsection \<open>\<open>detectBottlenecks\<close> (lines 98--155)\<close>

definition bottleneck_ForStatement :: "finding list handler" where
  "bottleneck_ForStatement this path bs =
     (case this of
        Undefined \<Rightarrow> Inl (undefined_read ''hasNestedLoop'')
      | Analyzer \<Rightarrow>
          (case hasNestedLoop path of
             Inl e \<Rightarrow> Inl e
           | Inr nested \<Rightarrow>
               Inr (if nested
                    then bs @
                      [\<lparr>ftype = ''nested-loop'', severity = ''high'',
                        line = loc_start_line (node path),
                        message = ''Nested loops detected - O(n'' @ [CHR 0xB2] @ '') complexity'',
                        suggestion =
                          ''Consider using Map/Set for lookups or optimize algorithm''\<rparr>]
                    else bs)))"

text \<open>The first \<open>CallExpression\<close> property of the visitor literal (lines 122--135).\<close>

definition bottleneck_CallExpression_chain :: "finding list handler" where
  "bottleneck_CallExpression_chain this path bs =
     (case this of
        Undefined \<Rightarrow> Inl (undefined_read ''isArrayMethodChain'')
      | Analyzer \<Rightarrow>
          (if isArrayMethodChain path
           then (let chainLength = getChainLength path
                 in if chainLength > 3
                    then Inr (bs @
                      [\<lparr>ftype = ''array-chain'', severity = ''medium'',
                        line = loc_start_line (node path),
                        message = ''Long array method chain ('' @ string_of_nat chainLength
                                  @ '' methods)'',
                        suggestion = ''Consider combining operations or using for-loop for better performance''\<rparr>])
                    else Inr bs)
           else Inr bs))"

text \<open>The second \<open>CallExpression\<close> property of the same literal (lines 138--148).\<close>

definition bottleneck_CallExpression_dom :: "finding list handler" where
  "bottleneck_CallExpression_dom this path bs =
     (case this of
        Undefined \<Rightarrow> Inl (undefined_read ''isDOMManipulation'')
      | Analyzer \<Rightarrow>
          (if isDOMManipulation path \<and> isInLoop path
           then Inr (bs @
                  [\<lparr>ftype = ''dom-in-loop'', severity = ''high'',
                    line = loc_start_line (node path),
                    message = ''DOM manipulation inside loop'',
                    suggestion = ''Batch DOM updates outside the loop''\<rparr>])
           else Inr bs))"

definition bottleneck_visitor :: "finding list visitor" where
  "bottleneck_visitor =
     [''ForStatement'' \<mapsto> bottleneck_ForStatement,
      ''CallExpression'' \<mapsto> bottleneck_CallExpression_chain,
      ''CallExpression'' \<mapsto> bottleneck_CallExpression_dom]"

definition detectBottlenecks :: "parser \<Rightarrow> string \<Rightarrow> string \<Rightarrow> finding list" where
  "detectBottlenecks parse code file =
     (case parse [''typescript'', ''jsx''] code of
        Inl e \<Rightarrow> []
      | Inr ast \<Rightarrow>
          (case traverse ast bottleneck_visitor [] of
             Inl e \<Rightarrow> []
           | Inr bs \<Rightarrow> bs))"

subsection \<open>\<open>detectMemoryLeaks\<close> (lines 158--205)\<close>

text \<open>The first \<open>CallExpression\<close> property of the visitor literal (lines 169--182).\<close>

definition leak_CallExpression_event :: "finding list handler" where
  "leak_CallExpression_event this path leaks =
     (case this of
        Undefined \<Rightarrow> Inl (undefined_read ''isEventListener'')
      | Analyzer \<Rightarrow>
          (if isEventListener (node path)
           then (case hasEventCleanup path of
                   Inl e \<Rightarrow> Inl e
                 | Inr hasCleanup \<Rightarrow>
                     Inr (if \<not> hasCleanup
                          then leaks @
                            [\<lparr>ftype = ''event-listener'', severity = ''medium'',
                              line = loc_start_line (node path),
                              message = ''Event listener without cleanup'',
                              suggestion = ''Add removeEventListener in cleanup function''\<rparr>]
                          else leaks))
           else Inr leaks))"

text \<open>The second \<open>CallExpression\<close> property of the same literal (lines 185--198).\<close>

definition leak_CallExpression_timer :: "finding list handler" where
  "leak_CallExpression_timer this path leaks =
     (case this of
        Undefined \<Rightarrow> Inl (undefined_read ''isTimer'')
      | Analyzer \<Rightarrow>
          (if isTimer (node path)
           then (case hasTimerCleanup path of
                   Inl e \<Rightarrow> Inl e
                 | Inr hasCleanup \<Rightarrow>
                     Inr (if \<not> hasCleanup
                          then leaks @
                            [\<lparr>ftype = ''timer'', severity = ''medium'',
                              line = loc_start_line (node path),
                              message = ''Timer without cleanup'',
                              suggestion = ''Store timer ID and clear in cleanup''\<rparr>]
                          else leaks))
           else Inr leaks))"

definition leak_visitor :: "finding list visitor" where
  "leak_visitor =
     [''CallExpression'' \<mapsto> leak_CallExpression_event,
      ''CallExpression'' \<mapsto> leak_CallExpression_timer]"

definition detectMemoryLeaks :: "parser \<Rightarrow> string \<Rightarrow> string \<Rightarrow> finding list" where
  "detectMemoryLeaks parse code file =
     (case parse [''typescript'', ''jsx''] code of
        Inl e \<Rightarrow> []
      | Inr ast \<Rightarrow>
          (case traverse ast leak_visitor [] of
             Inl e \<Rightarrow> []
           | Inr leaks \<Rightarrow> leaks))"

subsection \<open>\<open>analyzeReactComponent\<close> (lines 15--55)\<close>

text \<open>
  The methods \<open>checkInlineObjects\<close>, \<open>analyzeHookUsage\<close> and \<open>checkJSXOptimizations\<close> that the
  handlers call are not defined by the class: calling one throws.
\<close>

type_synonym react_state = "string option list \<times> string option list"

definition react_FunctionDeclaration :: "react_state handler" where
  "react_FunctionDeclaration this path st =
     (case this of
        Undefined \<Rightarrow> Inl (undefined_read ''isReactComponent'')
      | Analyzer \<Rightarrow>
          (if isReactComponent (node path)
           then Inl (not_a_function ''this.checkInlineObjects'')
           else Inr st))"

definition react_CallExpression :: "react_state handler" where
  "react_CallExpression this path st =
     (case this of
        Undefined \<Rightarrow> Inl (undefined_read ''isHook'')
      | Analyzer \<Rightarrow>
          (if isHook (node path)
           then Inl (not_a_function ''this.analyzeHookUsage'')
           else Inr st))"

definition react_JSXElement :: "react_state handler" where
  "react_JSXElement this path st =
     (case this of
        Undefined \<Rightarrow> Inl (undefined_read ''checkJSXOptimizations'')
      | Analyzer \<Rightarrow> Inl (not_a_function ''this.checkJSXOptimizations''))"

definition react_visitor :: "react_state visitor" where
  "react_visitor =
     [''FunctionDeclaration'' \<mapsto> react_FunctionDeclaration,
      ''CallExpression'' \<mapsto> react_CallExpression,
      ''JSXElement'' \<mapsto> react_JSXElement]"

definition analyzeReactComponent :: "parser \<Rightarrow> string \<Rightarrow> string \<Rightarrow> react_analysis" where
  "analyzeReactComponent parse code file =
     (case parse [''jsx'', ''typescript'', ''decorators-legacy''] code of
        Inl e \<Rightarrow>
          \<lparr>issues = [], recommendations = [], react_error = Some (error_message e)\<rparr>
      | Inr ast \<Rightarrow>
          (case traverse ast react_visitor ([], []) of
             Inl e \<Rightarrow>
               \<lparr>issues = [], recommendations = [], react_error = Some (error_message e)\<rparr>
           | Inr (iss, recs) \<Rightarrow>
               \<lparr>issues = iss, recommendations = recs, react_error = None\<rparr>))"

subsection \<open>\<open>analyzeCode\<close> (lines 371--402)\<close>

text \<open>\<open>path.extname\<close> of Node.js is a parameter of the model.\<close>

definition analyzeCode ::
  "parser \<Rightarrow> (string \<Rightarrow> string) \<Rightarrow> string \<Rightarrow> string \<Rightarrow> results" where
  "analyzeCode parse extname code file =
     (let ext = extname file;
          reactAnalysis =
            (if ext \<in> set [''.jsx'', ''.tsx''] \<or> str_includes code ''React''
             then Some (analyzeReactComponent parse code file) else None);
          results =
            \<lparr>filePath = file, fileType = ext,
             performance =
               \<lparr>react = reactAnalysis,
                bottlenecks = Some (detectBottlenecks parse code file)\<rparr>,
             bundleImpact = analyzeBundleImpact parse code file,
             memoryLeaks = detectMemoryLeaks parse code file,
             results_recommendations = [],
             performanceScore = None\<rparr>
      in results\<lparr>performanceScore := Some (calculatePerformanceScore results)\<rparr>)"

section \<open>The command-line analyzer \<open>UltimatePerformanceAnalyzer\<close> (part\_001)\<close>

text \<open>
  What the class reads of its configuration: \<open>config.exclude\<close>,
  \<open>config.thresholds.fileSize\<close>, \<open>config.thresholds.functions\<close> and
  \<open>config.analysis.performance\<close>.
\<close>

record config =
  exclude :: "string list"
  threshold_fileSize :: nat
  threshold_functions :: nat
  analysis_performance :: bool

text \<open>\<open>ConfigManager.defaultConfig\<close> (lines 15--37).\<close>

definition defaultConfig :: config where
  "defaultConfig =
     \<lparr>exclude = [''node_modules'', ''dist'', ''build'', ''.git'', ''coverage'', ''.nyc_output'',
                 ''*.min.js''],
      threshold_fileSize = 100000, threshold_functions = 20, analysis_performance = True\<rparr>"

text \<open>
  The regular expressions of \<open>getTraditionalAnalysis\<close> and \<open>calculateBasicComplexity\<close>, by
  name; \<open>(content.match(re) || []).length\<close>, the number of matches of a global expression,
  is a parameter of the model.
  \<^item> \<open>FunctionsRe\<close>: \<^verbatim>\<open>/function\s+\w+|const\s+\w+\s*=\s*\(|=>\s*\{/g\<close>
  \<^item> \<open>LoopsRe\<close>: \<^verbatim>\<open>/for\s*\(|while\s*\(|forEach\(|map\(|filter\(/g\<close>
  \<^item> \<open>ImportsRe\<close>: \<^verbatim>\<open>/import\s+.*from|require\s*\(/g\<close>
  \<^item> \<open>TodosRe\<close>: \<^verbatim>\<open>/TODO|FIXME|XXX/gi\<close>
  \<^item> \<open>IfRe\<close>, \<open>ElseRe\<close>, \<open>ForRe\<close>, \<open>WhileRe\<close>, \<open>SwitchRe\<close>, \<open>CaseRe\<close>, \<open>CatchRe\<close>, \<open>TernaryRe\<close>:
    \<^verbatim>\<open>/if\s*\(/g\<close>, \<^verbatim>\<open>/else/g\<close>, \<^verbatim>\<open>/for\s*\(/g\<close>, \<^verbatim>\<open>/while\s*\(/g\<close>, \<^verbatim>\<open>/switch\s*\(/g\<close>,
    \<^verbatim>\<open>/case\s+/g\<close>, \<^verbatim>\<open>/catch\s*\(/g\<close>, \<^verbatim>\<open>/\?\s*:/g\<close>
\<close>

datatype regex =
    FunctionsRe | LoopsRe | ImportsRe | TodosRe
  | IfRe | ElseRe | ForRe | WhileRe | SwitchRe | CaseRe | CatchRe | TernaryRe

text \<open>
  The world outside the class: the parser, \<open>path.extname\<close>, \<open>path.basename\<close>,
  \<open>path.relative(process.cwd(), _)\<close>, \<open>fs.existsSync\<close>, \<open>fs.statSync(_).size\<close>,
  \<open>fs.readFileSync(_, 'utf8')\<close> (which may throw), the match count of a regular expression,
  and the floating-point part of \<open>formatSize\<close> (logarithm, power, \<open>toFixed\<close>).
\<close>

record runtime =
  babel_parse :: parser
  extname :: "string \<Rightarrow> string"
  basename :: "string \<Rightarrow> string"
  relative :: "string \<Rightarrow> string"
  existsSync :: "string \<Rightarrow> bool"
  statSync_size :: "string \<Rightarrow> nat"
  readFileSync :: "string \<Rightarrow> error + string"
  match_count :: "regex \<Rightarrow> string \<Rightarrow> nat"
  format_nonzero_size :: "nat \<Rightarrow> string"

record traditional =
  lines :: nat
  chars :: nat
  function_count :: nat
  loops :: nat
  import_count :: nat
  complexity :: nat
  todos :: nat
  duplicatedCode :: nat

text \<open>A suggestion object; \<open>s_line\<close> and \<open>s_suggestion\<close> are absent from some of them.\<close>

record suggestion =
  s_type :: string
  s_category :: string
  s_severity :: string
  s_message :: string
  s_impact :: string
  s_line :: "nat option"
  s_suggestion :: "string option"
  s_autofix :: bool

text \<open>
  The report of one file, the \<open>analysis\<close> object of \<open>analyzeFile\<close>: \<open>relFile\<close> is its field
  \<open>file\<close>, \<open>fileSize\<close> its \<open>size\<close>, \<open>typeTag\<close> its \<open>type\<close> and \<open>overallScore\<close> its
  \<open>performanceScore\<close>. The \<open>timestamp\<close>, a clock reading, is left out.
\<close>

record analysis =
  relFile :: string
  fullPath :: string
  fileSize :: nat
  sizeFormatted :: string
  typeTag :: string
  advanced :: "results option"
  traditionalAnalysis :: "traditional option"
  suggestions :: "suggestion list"
  overallScore :: int

record issue_count =
  high :: nat
  medium :: nat
  low :: nat

text \<open>The mutable fields of the analyzer: \<open>this.results\<close>, \<open>this.totalScore\<close>, \<open>this.issueCount\<close>.\<close>

record analyzer =
  stored_results :: "analysis list"
  totalScore :: int
  issueCount :: issue_count

definition new_analyzer :: analyzer where
  "new_analyzer =
     \<lparr>stored_results = [], totalScore = 0, issueCount = \<lparr>high = 0, medium = 0, low = 0\<rparr>\<rparr>"

subsection \<open>Strings\<close>

definition upper_letters :: string where "upper_letters = ''ABCDEFGHIJKLMNOPQRSTUVWXYZ''"
definition lower_letters :: string where "lower_letters = ''abcdefghijklmnopqrstuvwxyz''"

text \<open>\<open>toLowerCase\<close> and \<open>toUpperCase\<close> on the letters of file extensions.\<close>

definition toLowerCase :: "string \<Rightarrow> string" where
  "toLowerCase s =
     map (\<lambda>c. case map_of (zip upper_letters lower_letters) c of None \<Rightarrow> c | Some d \<Rightarrow> d) s"

definition toUpperCase :: "string \<Rightarrow> string" where
  "toUpperCase s =
     map (\<lambda>c. case map_of (zip lower_letters upper_letters) c of None \<Rightarrow> c | Some d \<Rightarrow> d) s"

text \<open>\<open>content.split('\n')\<close>: the pieces between line feeds, one more than there are line
  feeds.\<close>

fun split_lines :: "string \<Rightarrow> string list" where
  "split_lines [] = [[]]"
| "split_lines (c # s) =
     (if c = CHR 0x0A then [] # split_lines s
      else (case split_lines s of l # ls \<Rightarrow> (c # l) # ls | [] \<Rightarrow> [[c]]))"

text \<open>White space and line terminators among the code units below 256.\<close>

definition is_space :: "char \<Rightarrow> bool" where
  "is_space c = (c \<in> set [CHR 0x09, CHR 0x0A, CHR 0x0B, CHR 0x0C, CHR 0x0D, CHR 0x20, CHR 0xA0])"

definition trim :: "string \<Rightarrow> string" where
  "trim s = rev (dropWhile is_space (rev (dropWhile is_space s)))"

text \<open>\<open>s.replace(/\s+/g, ' ')\<close>: every run of white space becomes one blank.\<close>

fun collapse_from :: "bool \<Rightarrow> string \<Rightarrow> string" where
  "collapse_from in_run [] = []"
| "collapse_from in_run (c # s) =
     (if is_space c
      then (if in_run then collapse_from True s else CHR 0x20 # collapse_from True s)
      else c # collapse_from False s)"

definition collapse_spaces :: "string \<Rightarrow> string" where
  "collapse_spaces s = collapse_from False s"

subsection \<open>Traditional metrics (lines 145--190)\<close>

definition complexityKeywords :: "regex list" where
  "complexityKeywords = [IfRe, ElseRe, ForRe, WhileRe, SwitchRe, CaseRe, CatchRe, TernaryRe]"

definition calculateBasicComplexity :: "runtime \<Rightarrow> string \<Rightarrow> nat" where
  "calculateBasicComplexity rt content =
     fold (\<lambda>re total. total + match_count rt re content) complexityKeywords 1"

text \<open>The loop of \<open>detectDuplicatedCode\<close>: the map \<open>seen\<close> and the list \<open>duplicates\<close> of
  (line, content, first occurrence).\<close>

type_synonym dup_state = "(string \<rightharpoonup> nat) \<times> (nat \<times> string \<times> nat) list"

definition duplicate_step :: "string \<times> nat \<Rightarrow> dup_state \<Rightarrow> dup_state" where
  "duplicate_step x st =
     (let normalized = collapse_spaces (trim (fst x))
      in case fst st normalized of
           Some firstOccurrence \<Rightarrow>
             (fst st, snd st @ [(snd x + 1, normalized, firstOccurrence)])
         | None \<Rightarrow> ((fst st)(normalized \<mapsto> snd x + 1), snd st))"

definition detectDuplicatedCode :: "string \<Rightarrow> nat" where
  "detectDuplicatedCode content =
     (let ls = filter (\<lambda>l. length (trim l) > 10) (split_lines content)
      in length (snd (fold duplicate_step (zip ls [0..<length ls]) (Map.empty, []))))"

definition getTraditionalAnalysis :: "runtime \<Rightarrow> string \<Rightarrow> traditional option" where
  "getTraditionalAnalysis rt content =
     (if content = [] then None
      else Some
        \<lparr>lines = length (split_lines content),
         chars = length content,
         function_count = match_count rt FunctionsRe content,
         loops = match_count rt LoopsRe content,
         import_count = match_count rt ImportsRe content,
         complexity = calculateBasicComplexity rt content,
         todos = match_count rt TodosRe content,
         duplicatedCode = detectDuplicatedCode content\<rparr>)"

subsection \<open>Suggestions (lines 192--351)\<close>

definition formatSize :: "runtime \<Rightarrow> nat \<Rightarrow> string" where
  "formatSize rt bytes = (if bytes = 0 then ''0 B'' else format_nonzero_size rt bytes)"

definition traditional_suggestions :: "config \<Rightarrow> analysis \<Rightarrow> suggestion list" where
  "traditional_suggestions cfg a =
     (case traditionalAnalysis a of
        None \<Rightarrow> []
      | Some trad \<Rightarrow>
          (if fileSize a > threshold_fileSize cfg
           then [\<lparr>s_type = ''warning'', s_category = ''size'', s_severity = ''high'',
                  s_message = ''Large file size ('' @ sizeFormatted a
                              @ '') - consider splitting'',
                  s_impact = ''Bundle size, loading time'',
                  s_line = None, s_suggestion = None, s_autofix = False\<rparr>]
           else [])
          @ (if function_count trad > threshold_functions cfg
             then [\<lparr>s_type = ''warning'', s_category = ''maintainability'',
                    s_severity = ''medium'',
                    s_message = ''High function count ('' @ string_of_nat (function_count trad)
                                @ '') - consider modularization'',
                    s_impact = ''Code maintainability, testing complexity'',
                    s_line = None, s_suggestion = None, s_autofix = False\<rparr>]
             else [])
          @ (if complexity trad > 15
             then [\<lparr>s_type = ''warning'', s_category = ''complexity'', s_severity = ''high'',
                    s_message = ''High cyclomatic complexity ('' @ string_of_nat (complexity trad)
                                @ '') - refactor needed'',
                    s_impact = ''Code maintainability, bug risk'',
                    s_line = None, s_suggestion = None, s_autofix = False\<rparr>]
             else [])
          @ (if duplicatedCode trad > 5
             then [\<lparr>s_type = ''info'', s_category = ''duplication'', s_severity = ''medium'',
                    s_message = ''Duplicated code detected ('' @ string_of_nat (duplicatedCode trad)
                                @ '' instances)'',
                    s_impact = ''Maintainability, bundle size'',
                    s_line = None, s_suggestion = None, s_autofix = True\<rparr>]
             else [])
          @ (if todos trad > 0
             then [\<lparr>s_type = ''info'', s_category = ''maintenance'', s_severity = ''low'',
                    s_message = string_of_nat (todos trad) @ '' TODO/FIXME comments found'',
                    s_impact = ''Code completion status'',
                    s_line = None, s_suggestion = None, s_autofix = False\<rparr>]
             else []))"

definition bottleneck_suggestion :: "finding \<Rightarrow> suggestion" where
  "bottleneck_suggestion b =
     \<lparr>s_type = ''warning'', s_category = ''performance'', s_severity = severity b,
      s_message = message b, s_impact = ''Runtime performance'', s_line = line b,
      s_suggestion = Some (suggestion b), s_autofix = False\<rparr>"

definition leak_suggestion :: "finding \<Rightarrow> suggestion" where
  "leak_suggestion l =
     \<lparr>s_type = ''error'', s_category = ''memory'', s_severity = severity l,
      s_message = message l, s_impact = ''Memory usage, potential crashes'', s_line = line l,
      s_suggestion = Some (suggestion l), s_autofix = False\<rparr>"

definition heavy_suggestion :: "heavy_import \<Rightarrow> suggestion" where
  "heavy_suggestion h =
     \<lparr>s_type = ''warning'', s_category = ''bundle'', s_severity = ''medium'',
      s_message = ''Heavy dependency: '' @ library h @ '' ('' @ estimatedSize h @ '')'',
      s_impact = ''Bundle size, loading time'', s_line = None,
      s_suggestion = Some (alternative h), s_autofix = False\<rparr>"

text \<open>\<open>issue.message || '...'\<close>: an absent or empty message gives way to the default.\<close>

definition message_or :: "string option \<Rightarrow> string \<Rightarrow> string" where
  "message_or m dflt = (case m of None \<Rightarrow> dflt | Some s \<Rightarrow> if s = [] then dflt else s)"

definition react_issue_suggestion :: "string option \<Rightarrow> suggestion" where
  "react_issue_suggestion m =
     \<lparr>s_type = ''warning'', s_category = ''react'', s_severity = ''medium'',
      s_message = message_or m ''React performance issue detected'',
      s_impact = ''Component performance, re-renders'', s_line = None,
      s_suggestion = None, s_autofix = False\<rparr>"

definition react_recommendation_suggestion :: "string option \<Rightarrow> suggestion" where
  "react_recommendation_suggestion m =
     \<lparr>s_type = ''info'', s_category = ''react-optimization'', s_severity = ''low'',
      s_message = message_or m ''React optimization opportunity'',
      s_impact = ''Component performance'', s_line = None,
      s_suggestion = None, s_autofix = True\<rparr>"

definition advanced_suggestions :: "analysis \<Rightarrow> suggestion list" where
  "advanced_suggestions a =
     (case advanced a of
        None \<Rightarrow> []
      | Some adv \<Rightarrow>
          map bottleneck_suggestion (or_empty (bottlenecks (performance adv)))
          @ map leak_suggestion (memoryLeaks adv)
          @ map heavy_suggestion (or_empty (heavyImports (bundleImpact adv)))
          @ (case react (performance adv) of
               None \<Rightarrow> []
             | Some r \<Rightarrow>
                 map react_issue_suggestion (issues r)
                 @ map react_recommendation_suggestion (recommendations r)))"

text \<open>The message for a file without suggestions ends, in the source, with a blank and a
  party-popper emoji, which lies outside the modelled code units and is left out.\<close>

definition generateComprehensiveSuggestions :: "config \<Rightarrow> analysis \<Rightarrow> suggestion list" where
  "generateComprehensiveSuggestions cfg a =
     (let found = traditional_suggestions cfg a @ advanced_suggestions a
      in if found = []
         then [\<lparr>s_type = ''success'', s_category = ''quality'', s_severity = ''info'',
                s_message = ''Code structure looks well optimized!'',
                s_impact = ''No performance concerns detected'', s_line = None,
                s_suggestion = None, s_autofix = False\<rparr>]
         else found)"

subsection \<open>Scores and statistics (lines 352--382)\<close>

definition calculateOverallScore :: "config \<Rightarrow> analysis \<Rightarrow> int" where
  "calculateOverallScore cfg a =
     (case (case advanced a of None \<Rightarrow> None | Some adv \<Rightarrow> performanceScore adv) of
        Some s \<Rightarrow> s
      | None \<Rightarrow>
          (let score = 100;
               score = (if fileSize a > threshold_fileSize cfg then score - 10 else score);
               score =
                 (case traditionalAnalysis a of
                    None \<Rightarrow> score
                  | Some trad \<Rightarrow>
                      (let score = (if complexity trad > 15 then score - 20 else score);
                           score = (if function_count trad > threshold_functions cfg
                                    then score - 10 else score);
                           score = (if duplicatedCode trad > 5 then score - 15 else score)
                       in score))
           in max 0 (min 100 score)))"

definition count_issue :: "suggestion \<Rightarrow> issue_count \<Rightarrow> issue_count" where
  "count_issue s c =
     (if s_severity s = ''high'' then c\<lparr>high := high c + 1\<rparr>
      else if s_severity s = ''medium'' then c\<lparr>medium := medium c + 1\<rparr>
      else if s_severity s = ''low'' then c\<lparr>low := low c + 1\<rparr>
      else c)"

definition updateGlobalStats :: "analysis \<Rightarrow> analyzer \<Rightarrow> analyzer" where
  "updateGlobalStats a st =
     st\<lparr>totalScore := totalScore st + overallScore a,
        issueCount := fold count_issue (suggestions a) (issueCount st)\<rparr>"

subsection \<open>\<open>analyzeFile\<close> and \<open>analyzePattern\<close> (lines 80--143 and 397--414)\<close>

definition shouldExclude :: "config \<Rightarrow> runtime \<Rightarrow> string \<Rightarrow> bool" where
  "shouldExclude cfg rt file =
     list_ex (\<lambda>pattern. str_includes file pattern
                \<or> prefix ''.'' (basename rt file)
                \<or> str_includes file ''test''
                \<or> str_includes file ''spec'') (exclude cfg)"

definition isBinaryFile :: "string \<Rightarrow> bool" where
  "isBinaryFile ext =
     (toLowerCase ext \<in> set [''.jpg'', ''.jpeg'', ''.png'', ''.gif'', ''.pdf'', ''.zip'',
                             ''.tar'', ''.gz''])"

definition scriptExtensions :: "string list" where
  "scriptExtensions = [''.js'', ''.ts'', ''.jsx'', ''.tsx'', ''.vue'', ''.svelte'']"

text \<open>
  The \<open>try\<close> block of \<open>analyzeFile\<close>: the content read and the advanced analysis, or the
  exception of \<open>readFileSync\<close>. \<open>analyzeCode\<close> throws nothing: each detector catches what its
  parse and its traversal throw.
\<close>

definition read_and_analyze ::
  "config \<Rightarrow> runtime \<Rightarrow> string \<Rightarrow> error + (string \<times> results option)" where
  "read_and_analyze cfg rt file =
     (if extname rt file \<in> set scriptExtensions
      then (case readFileSync rt file of
              Inl e \<Rightarrow> Inl e
            | Inr content \<Rightarrow>
                Inr (content,
                     if analysis_performance cfg
                     then Some (analyzeCode (babel_parse rt) (extname rt) content file)
                     else None))
      else Inr ([], None))"

definition analyzeFile ::
  "config \<Rightarrow> runtime \<Rightarrow> string \<Rightarrow> analyzer \<Rightarrow> analysis option \<times> analyzer" where
  "analyzeFile cfg rt file st =
     (if shouldExclude cfg rt file then (None, st)
      else if \<not> existsSync rt file then (None, st)
      else
        (let ext = extname rt file; size = statSync_size rt file
         in if size > 5000000 \<or> isBinaryFile ext then (None, st)
            else
              (case read_and_analyze cfg rt file of
                 Inl e \<Rightarrow> (None, st)
               | Inr (content, advancedAnalysis) \<Rightarrow>
                   (let a = \<lparr>relFile = relative rt file, fullPath = file, fileSize = size,
                             sizeFormatted = formatSize rt size,
                             typeTag = (if toUpperCase (drop 1 ext) = [] then ''FILE''
                                        else toUpperCase (drop 1 ext)),
                             advanced = advancedAnalysis,
                             traditionalAnalysis = getTraditionalAnalysis rt content,
                             suggestions = [], overallScore = 0\<rparr>;
                        a = a\<lparr>suggestions := generateComprehensiveSuggestions cfg a\<rparr>;
                        a = a\<lparr>overallScore := calculateOverallScore cfg a\<rparr>
                    in (Some a, updateGlobalStats a st)))))"

text \<open>\<open>analyzePattern\<close> over the files that \<open>glob.sync\<close> found: every report is pushed
  on the local list and on \<open>this.results\<close>.\<close>

fun analyzePattern ::
  "config \<Rightarrow> runtime \<Rightarrow> string list \<Rightarrow> analysis list \<times> analyzer
     \<Rightarrow> analysis list \<times> analyzer" where
  "analyzePattern cfg rt [] acc = acc"
| "analyzePattern cfg rt (file # files) acc =
     (case analyzeFile cfg rt file (snd acc) of
        (None, st) \<Rightarrow> analyzePattern cfg rt files (fst acc, st)
      | (Some a, st) \<Rightarrow>
          analyzePattern cfg rt files
            (fst acc @ [a], st\<lparr>stored_results := stored_results st @ [a]\<rparr>))"

subsection \<open>\<open>generateUltimateSummary\<close> (lines 416--450)\<close>

text \<open>
  \<open>Math.round(totalScore / totalFiles)\<close> rounds the quotient to the nearest integer, a tie
  going up; on a non-negative integer total that is \<open>(2 * total + n) div (2 * n)\<close>. The
  double division cannot move a quotient across a half for any number of files a
  JavaScript array can hold.
\<close>

definition round_mean :: "int \<Rightarrow> nat \<Rightarrow> int" where
  "round_mean t n = (2 * t + int n) div (2 * int n)"

text \<open>The summary object; \<open>issues_total\<close> is its field \<open>issues\<close>, and the two clock readings
  \<open>executionTime\<close> and \<open>timestamp\<close> are left out.\<close>

record summary =
  totalFiles :: nat
  totalSize :: string
  averageScore :: int
  grade :: string
  issues_total :: issue_count
  estimatedBundleSize :: string
  topIssues :: "suggestion list"

definition generateUltimateSummary :: "runtime \<Rightarrow> analyzer \<Rightarrow> summary" where
  "generateUltimateSummary rt st =
     (let totalFiles = length (stored_results st);
          totalSize = fold (\<lambda>r sum. sum + fileSize r) (stored_results st) 0;
          averageScore = (if totalFiles > 0 then round_mean (totalScore st) totalFiles else 0);
          grade = ''F'';
          grade = (if averageScore \<ge> 90 then ''A+''
                   else if averageScore \<ge> 80 then ''A''
                   else if averageScore \<ge> 70 then ''B''
                   else if averageScore \<ge> 60 then ''C''
                   else if averageScore \<ge> 50 then ''D''
                   else grade);
          topIssues =
            take 5 (concat (map (\<lambda>r. filter (\<lambda>s. s_severity s = ''high'') (suggestions r))
                              (stored_results st)));
          jsFiles = filter (\<lambda>r. extname rt (fullPath r) \<in> set [''.js'', ''.ts'', ''.jsx'', ''.tsx''])
                      (stored_results st);
          estimatedBundleSize = fold (\<lambda>file sum. sum + fileSize file) jsFiles 0
      in \<lparr>totalFiles = totalFiles, totalSize = formatSize rt totalSize,
          averageScore = averageScore, grade = grade, issues_total = issueCount st,
          estimatedBundleSize = formatSize rt estimatedBundleSize,
          topIssues = topIssues\<rparr>)"

section \<open>Named values and sample programs\<close>

text \<open>
  The findings the rules record, and the trees, parsers and runtimes at which the
  analyzer is evaluated below.
\<close>

definition sample_finding :: "string \<Rightarrow> finding" where
  "sample_finding sev =
     \<lparr>ftype = ''nested-loop'', severity = sev, line = Some 1, message = ''m'',
      suggestion = ''s''\<rparr>"

definition sample_import :: "string \<Rightarrow> heavy_import" where
  "sample_import lib = \<lparr>library = lib, estimatedSize = ''Unknown'', alternative = ''a''\<rparr>"

definition sample_results ::
  "finding list \<Rightarrow> finding list \<Rightarrow> heavy_import list \<Rightarrow> results" where
  "sample_results bs ls his =
     \<lparr>filePath = ''a.js'', fileType = ''.js'',
      performance = \<lparr>react = None, bottlenecks = Some bs\<rparr>,
      bundleImpact = \<lparr>bundle_imports = [], heavyImports = Some his, bundle_error = None\<rparr>,
      memoryLeaks = ls, results_recommendations = [], performanceScore = None\<rparr>"

definition nested_loop_finding :: "nat option \<Rightarrow> finding" where
  "nested_loop_finding l =
     \<lparr>ftype = ''nested-loop'', severity = ''high'', line = l,
      message = ''Nested loops detected - O(n'' @ [CHR 0xB2] @ '') complexity'',
      suggestion = ''Consider using Map/Set for lookups or optimize algorithm''\<rparr>"

text \<open>The text \<open>for(;;){for(;;){for(;;){}}}\<close>, its tree, and a parser that knows it.\<close>

definition triple_for :: node where
  "triple_for =
     File (Program
       [ForStatement (Some 1) None None None (BlockStatement
         [ForStatement (Some 2) None None None (BlockStatement
           [ForStatement (Some 3) None None None (BlockStatement [])])])])"

definition triple_for_parser :: parser where
  "triple_for_parser plugins code =
     (if code = ''for(;;){for(;;){for(;;){}}}'' then Inr triple_for
      else Inl (SyntaxError ''Unexpected token''))"

definition array_chain_finding :: "nat option \<Rightarrow> nat \<Rightarrow> finding" where
  "array_chain_finding l n =
     \<lparr>ftype = ''array-chain'', severity = ''medium'', line = l,
      message = ''Long array method chain ('' @ string_of_nat n @ '' methods)'',
      suggestion = ''Consider combining operations or using for-loop for better performance''\<rparr>"

text \<open>
  The chain \<open>base.m1(args1).m2(args2)...\<close>: each triple is the line, the method name and
  the arguments of one call, the innermost call first.
\<close>

fun method_chain :: "node \<Rightarrow> (nat option \<times> string \<times> node list) list \<Rightarrow> node" where
  "method_chain base [] = base"
| "method_chain base ((l, m, args) # calls) =
     method_chain (CallExpression l (MemberExpression base (Identifier m)) args) calls"

text \<open>The three inner calls of \<open>a.map().filter().map().reduce()\<close>.\<close>

definition inner_calls :: "(nat option \<times> string \<times> node list) list" where
  "inner_calls = [(Some 1, ''map'', []), (Some 1, ''filter'', []), (Some 2, ''map'', [])]"

text \<open>A call \<open>obj.method(f)\<close>.\<close>

definition method_call :: "node \<Rightarrow> string \<Rightarrow> node" where
  "method_call obj method = CallExpression (Some 1) (MemberExpression obj (Identifier method))
                              [Identifier ''f'']"

text \<open>\<open>p.then(f).then(f).then(f).catch(f)\<close> and \<open>a.map(f).filter(f).map(f).filter(f)\<close>.\<close>

definition promise_chain :: node where
  "promise_chain =
     method_call (method_call (method_call (method_call (Identifier ''p'') ''then'') ''then'')
       ''then'') ''catch''"

definition array_chain :: node where
  "array_chain =
     method_call (method_call (method_call (method_call (Identifier ''a'') ''map'') ''filter'')
       ''map'') ''filter''"

definition statement_parser :: "node \<Rightarrow> parser" where
  "statement_parser e plugins code = Inr (File (Program [ExpressionStatement e]))"

text \<open>\<open>for(;;){ document.getElementById('x'); }\<close>\<close>

definition dom_call :: node where
  "dom_call = CallExpression (Some 1)
                (MemberExpression (Identifier ''document'') (Identifier ''getElementById''))
                [StringLiteral ''x'']"

definition dom_in_for :: node where
  "dom_in_for =
     File (Program
       [ForStatement (Some 1) None None None (BlockStatement [ExpressionStatement dom_call])])"

definition dom_call_path :: path where
  "dom_call_path =
     \<lparr>node = dom_call,
      ancestors =
        [ExpressionStatement dom_call,
         BlockStatement [ExpressionStatement dom_call],
         ForStatement (Some 1) None None None (BlockStatement [ExpressionStatement dom_call]),
         Program [ForStatement (Some 1) None None None
                    (BlockStatement [ExpressionStatement dom_call])],
         dom_in_for]\<rparr>"

text \<open>\<open>el.addEventListener('click', fn);\<close>\<close>

definition listener_call :: node where
  "listener_call = CallExpression (Some 1)
                     (MemberExpression (Identifier ''el'') (Identifier ''addEventListener''))
                     [StringLiteral ''click'', Identifier ''fn'']"

definition listener_file :: node where
  "listener_file = File (Program [ExpressionStatement listener_call])"

definition listener_path :: path where
  "listener_path =
     \<lparr>node = listener_call,
      ancestors = [ExpressionStatement listener_call,
                   Program [ExpressionStatement listener_call], listener_file]\<rparr>"

text \<open>The path of \<open>import ... from 'src'\<close> and the entry the handler pushes for it.\<close>

definition import_path :: "node list \<Rightarrow> string \<Rightarrow> node list \<Rightarrow> path" where
  "import_path specs src anc =
     \<lparr>node = ImportDeclaration specs (StringLiteral src), ancestors = anc\<rparr>"

definition import_entry :: "node list \<Rightarrow> string \<Rightarrow> import_info" where
  "import_entry specs src =
     \<lparr>source = src,
      specifiers = map local_name specs,
      isDefaultImport = list_ex (\<lambda>s. ntype s = ''ImportDefaultSpecifier'') specs,
      isNamespaceImport = list_ex (\<lambda>s. ntype s = ''ImportNamespaceSpecifier'') specs\<rparr>"

text \<open>The sources of the import declarations of a tree.\<close>

definition import_sources :: "node \<Rightarrow> string list" where
  "import_sources ast =
     concat (map (\<lambda>p. opt_list (source_value (node p))) (paths_from [] ast))"

definition moment_import :: node where
  "moment_import =
     File (Program [ImportDeclaration [ImportDefaultSpecifier (Identifier ''m'')]
                      (StringLiteral ''./lodash/moment-utils'')])"

definition left_pad_import :: node where
  "left_pad_import =
     File (Program [ImportDeclaration [ImportDefaultSpecifier (Identifier ''pad'')]
                      (StringLiteral ''left-pad'')])"

text \<open>A runtime in which \<open>src/bad.js\<close> holds the text \<open>for (\<close>, which the parser rejects.\<close>

definition bad_runtime :: runtime where
  "bad_runtime =
     \<lparr>babel_parse = (\<lambda>plugins code. Inl (SyntaxError ''Unexpected token (1:5)'')),
      extname = (\<lambda>f. ''.js''),
      basename = (\<lambda>f. ''bad.js''),
      relative = (\<lambda>f. f),
      existsSync = (\<lambda>f. True),
      statSync_size = (\<lambda>f. 5),
      readFileSync = (\<lambda>f. Inr ''for (''),
      match_count = (\<lambda>re content. if re = ForRe \<or> re = LoopsRe then 1 else 0),
      format_nonzero_size = (\<lambda>n. ''5 B'')\<rparr>"

definition sample_report :: "int \<Rightarrow> analysis" where
  "sample_report score =
     \<lparr>relFile = ''a.js'', fullPath = ''a.js'', fileSize = 10, sizeFormatted = ''10 B'',
      typeTag = ''JS'', advanced = None, traditionalAnalysis = None, suggestions = [],
      overallScore = score\<rparr>"

definition sample_analyzer :: "int list \<Rightarrow> analyzer" where
  "sample_analyzer scores =
     \<lparr>stored_results = map sample_report scores, totalScore = sum_list scores,
      issueCount = \<lparr>high = 0, medium = 0, low = 0\<rparr>\<rparr>"

text \<open>The result of \<open>analyzeCode\<close> on a text that the parser rejects.\<close>

definition failed_results :: "string \<Rightarrow> string \<Rightarrow> string \<Rightarrow> error \<Rightarrow> error \<Rightarrow> results" where
  "failed_results file ext code e e' =
     \<lparr>filePath = file, fileType = ext,
      performance =
        \<lparr>react =
           (if ext \<in> set [''.jsx'', ''.tsx''] \<or> str_includes code ''React''
            then Some \<lparr>issues = [], recommendations = [],
                       react_error = Some (error_message e')\<rparr>
            else None),
         bottlenecks = Some []\<rparr>,
      bundleImpact =
        \<lparr>bundle_imports = [], heavyImports = Some [], bundle_error = Some (error_message e)\<rparr>,
      memoryLeaks = [],
      results_recommendations = [],
      performanceScore = Some 100\<rparr>"

section \<open>The score model\<close>

lemma fold_bottleneck_step:
  "fold bottleneck_step bs s =
     s - (15 * count_sev ''high'' bs + 8 * count_sev ''medium'' bs + 3 * count_rest bs)"
  by (induction bs arbitrary: s) (auto simp: bottleneck_step_def count_sev_def count_rest_def)

lemma fold_leak_step:
  "fold leak_step ls s =
     s - (12 * count_sev ''high'' ls + 6 * count_sev ''medium'' ls + 2 * count_rest ls)"
  by (induction ls arbitrary: s) (auto simp: leak_step_def count_sev_def count_rest_def)

lemma score_of_closed_form:
  "score_of bs ls his =
     max 0 (min 100
       (100
        - (15 * count_sev ''high'' (or_empty bs) + 8 * count_sev ''medium'' (or_empty bs)
           + 3 * count_rest (or_empty bs))
        - (12 * count_sev ''high'' ls + 6 * count_sev ''medium'' ls + 2 * count_rest ls)
        - 5 * int (length (or_empty his))))"
  by (simp add: score_of_def fold_bottleneck_step fold_leak_step Let_def)

lemma count_sev_low_le_rest: "count_sev ''low'' fs \<le> count_rest fs"
  unfolding count_sev_def count_rest_def
  by (induction fs) auto

text \<open>
  Claim C1. The score is a function of the three finding lists alone: from 100 it loses 15,
  8 and 3 for each bottleneck of severity high, medium and anything else (low included), 12,
  6 and 2 likewise for each leak, and 5 for each heavy import; the result is clamped, so the
  returned integer lies between 0 and 100.
\<close>

theorem calculatePerformanceScore_model:
  "calculatePerformanceScore r =
     max 0 (min 100
       (100
        - (15 * count_sev ''high'' (or_empty (bottlenecks (performance r)))
           + 8 * count_sev ''medium'' (or_empty (bottlenecks (performance r)))
           + 3 * count_rest (or_empty (bottlenecks (performance r))))
        - (12 * count_sev ''high'' (memoryLeaks r)
           + 6 * count_sev ''medium'' (memoryLeaks r)
           + 2 * count_rest (memoryLeaks r))
        - 5 * int (length (or_empty (heavyImports (bundleImpact r))))))
   \<and> 0 \<le> calculatePerformanceScore r \<and> calculatePerformanceScore r \<le> 100"
  unfolding calculatePerformanceScore_def score_of_closed_form by simp

text \<open>
  Claim C9. Reordering the bottleneck list, the leak list and the heavy-import list (equal
  multisets) leaves the score unchanged; every quantity involved is an integer.
\<close>

theorem calculatePerformanceScore_reorder:
  assumes "mset (or_empty (bottlenecks (performance r))) =
           mset (or_empty (bottlenecks (performance r')))"
    and "mset (memoryLeaks r) = mset (memoryLeaks r')"
    and "mset (or_empty (heavyImports (bundleImpact r))) =
         mset (or_empty (heavyImports (bundleImpact r')))"
  shows "calculatePerformanceScore r = calculatePerformanceScore r'"
proof -
  have sev: "count_sev s xs = count_sev s ys" if "mset xs = mset ys" for s xs ys
  proof -
    have "mset (filter (\<lambda>f. severity f = s) xs) = mset (filter (\<lambda>f. severity f = s) ys)"
      using that by simp
    then show ?thesis
      unfolding count_sev_def using size_mset [of "filter (\<lambda>f. severity f = s) xs"] size_mset [of "filter (\<lambda>f. severity f = s) ys"] by simp
  qed
  have rest: "count_rest xs = count_rest ys" if "mset xs = mset ys" for xs ys
  proof -
    let ?P = "\<lambda>f. severity f \<noteq> ''high'' \<and> severity f \<noteq> ''medium''"
    have "mset (filter ?P xs) = mset (filter ?P ys)"
      using that by simp
    then show ?thesis
      unfolding count_rest_def using size_mset [of "filter ?P xs"] size_mset [of "filter ?P ys"] by simp
  qed
  have len: "length (or_empty (heavyImports (bundleImpact r))) =
             length (or_empty (heavyImports (bundleImpact r')))"
    using arg_cong [OF assms(3), of size] by simp
  show ?thesis
    unfolding calculatePerformanceScore_def score_of_closed_form
    using sev [OF assms(1)] rest [OF assms(1)] sev [OF assms(2)] rest [OF assms(2)] len
    by simp
qed

theorem calculatePerformanceScore_reorder_witness:
  "calculatePerformanceScore
     (sample_results [sample_finding ''high'', sample_finding ''low'']
        [sample_finding ''medium'', sample_finding ''high'']
        [sample_import ''moment'', sample_import ''axios''])
   = calculatePerformanceScore
     (sample_results [sample_finding ''low'', sample_finding ''high'']
        [sample_finding ''high'', sample_finding ''medium'']
        [sample_import ''axios'', sample_import ''moment''])
   \<and> calculatePerformanceScore
     (sample_results [sample_finding ''high'', sample_finding ''low'']
        [sample_finding ''medium'', sample_finding ''high'']
        [sample_import ''moment'', sample_import ''axios'']) = 54"
proof -
  have "calculatePerformanceScore
     (sample_results [sample_finding ''high'', sample_finding ''low'']
        [sample_finding ''medium'', sample_finding ''high'']
        [sample_import ''moment'', sample_import ''axios''])
   = calculatePerformanceScore
     (sample_results [sample_finding ''low'', sample_finding ''high'']
        [sample_finding ''high'', sample_finding ''medium'']
        [sample_import ''axios'', sample_import ''moment''])"
    by (rule calculatePerformanceScore_reorder)
       (simp_all add: sample_results_def or_empty_def)
  moreover have "calculatePerformanceScore
     (sample_results [sample_finding ''high'', sample_finding ''low'']
        [sample_finding ''medium'', sample_finding ''high'']
        [sample_import ''moment'', sample_import ''axios'']) = 54"
    by (simp add: calculatePerformanceScore_def score_of_def sample_results_def
        sample_finding_def or_empty_def bottleneck_step_def leak_step_def)
  ultimately show ?thesis by simp
qed

section \<open>What the unbound receiver does to the detectors\<close>

text \<open>
  Every handler of the four visitors begins with a call \<open>this.method(...)\<close>. Called by the
  traversal, with \<open>this\<close> undefined, it throws before it records anything; so a
  traversal either meets no node it has a handler for or ends in the \<open>catch\<close> of its
  detector.
\<close>

lemma visit_bottleneck_undefined:
  "visit bottleneck_visitor Undefined ps bs = Inr r \<Longrightarrow> r = bs"
  by (induction ps arbitrary: bs)
     (auto simp: bottleneck_visitor_def bottleneck_ForStatement_def
        bottleneck_CallExpression_dom_def split: if_splits)

lemma visit_leak_undefined:
  "visit leak_visitor Undefined ps ls = Inr r \<Longrightarrow> r = ls"
  by (induction ps arbitrary: ls)
     (auto simp: leak_visitor_def leak_CallExpression_timer_def split: if_splits)

lemma detectBottlenecks_empty: "detectBottlenecks parse code file = []"
  by (auto simp: detectBottlenecks_def traverse_def split: sum.splits
      dest: visit_bottleneck_undefined)

lemma detectMemoryLeaks_empty: "detectMemoryLeaks parse code file = []"
  by (auto simp: detectMemoryLeaks_def traverse_def split: sum.splits
      dest: visit_leak_undefined)

lemma visit_import_undefined:
  "visit [''ImportDeclaration'' \<mapsto> bundle_ImportDeclaration] Undefined ps st = Inr r
   \<Longrightarrow> r = st"
  by (induction ps arbitrary: st)
     (auto simp: bundle_ImportDeclaration_def Let_def split: if_splits option.splits prod.splits)

lemma analyzeBundleImpact_heavy:
  "heavyImports (analyzeBundleImpact parse code file) = Some []"
proof (cases "parse [''typescript'', ''jsx''] code")
  case (Inl e)
  then show ?thesis by (simp add: analyzeBundleImpact_def)
next
  case (Inr ast)
  show ?thesis
  proof (cases "traverse ast [''ImportDeclaration'' \<mapsto> bundle_ImportDeclaration]
                  ([]::import_info list, []::heavy_import list)")
    case (Inl e)
    with Inr show ?thesis by (simp add: analyzeBundleImpact_def)
  next
    case r: (Inr st)
    then have "st = ([], [])"
      unfolding traverse_def by (rule visit_import_undefined)
    with Inr r show ?thesis by (simp add: analyzeBundleImpact_def)
  qed
qed

lemma analyzeCode_score:
  "performanceScore (analyzeCode parse ext code file) = Some 100"
  by (simp add: analyzeCode_def Let_def calculatePerformanceScore_def score_of_def or_empty_def
      detectBottlenecks_empty detectMemoryLeaks_empty analyzeBundleImpact_heavy)

section \<open>Nested loops\<close>

lemma visit_nestedHandler:
  "visit (hasNestedLoop_visitor p) this ps b =
     Inr (b \<or> list_ex (\<lambda>q. ntype (node q) \<in> set loopTypes \<and> q \<noteq> p) ps)"
  by (induction ps arbitrary: b)
     (auto simp: hasNestedLoop_visitor_def nestedHandler_def loopTypes_def)

lemma paths_deeper:
  "list_all (\<lambda>q. length anc < length (ancestors q)) (paths_from anc n)"
  "list_all (\<lambda>q. length anc' \<le> length (ancestors q)) (paths_list anc' cs)"
proof (induction anc n and anc' cs rule: paths_from_paths_list.induct)
  case (1 anc n)
  then show ?case by (fastforce simp: list_all_iff)
next
  case (2 anc)
  then show ?case by simp
next
  case (3 anc c cs)
  then show ?case by (auto simp: list_all_iff)
qed

lemma path_not_below_itself:
  "list_all (\<lambda>q. q \<noteq> p) (paths_from (ancestors p) (node p))"
  using paths_deeper(1) [of "ancestors p" "node p"] by (auto simp: list_all_iff)

lemma hasNestedLoop_eq:
  "hasNestedLoop p =
     Inr (list_ex (\<lambda>q. ntype (node q) \<in> set loopTypes) (paths_from (ancestors p) (node p)))"
  using path_not_below_itself [of p]
  by (auto simp: hasNestedLoop_def path_traverse_def visit_nestedHandler list_all_iff
      list_ex_iff)

lemma paths_list_append:
  "paths_list anc (xs @ ys) = paths_list anc xs @ paths_list anc ys"
  by (induction xs) auto

lemma for_body_has_loop:
  assumes "ntype inner \<in> set loopTypes"
  shows "hasNestedLoop
           \<lparr>node = ForStatement l i t u (BlockStatement (pre @ inner # post)),
            ancestors = anc\<rparr> = Inr True"
  using assms
  by (simp add: hasNestedLoop_eq paths_list_append del: paths_from.simps
      add: paths_from.simps [of _ "ForStatement l i t u (BlockStatement (pre @ inner # post))"]
           paths_from.simps [of _ "BlockStatement (pre @ inner # post)"])

text \<open>
  Claim C2, as the code has it. The nested-loop rule, the \<open>ForStatement\<close> handler with the
  analyzer as its receiver, records a finding at the line of every \<open>for\<close> statement that
  has a \<open>for\<close>, \<open>while\<close> or \<open>do\<close>-\<open>while\<close> statement anywhere below it, and at no other. In a
  triply-nested \<open>for\<close> loop both the outermost and the middle loop are such statements:
  nothing restricts the rule to the outermost one.
\<close>

theorem nested_loop_rule:
  "bottleneck_ForStatement Analyzer p bs =
     Inr (if list_ex (\<lambda>q. ntype (node q) \<in> set loopTypes)
               (paths_from (ancestors p) (node p))
          then bs @ [nested_loop_finding (loc_start_line (node p))] else bs)
   \<and> bottleneck_ForStatement Analyzer
       \<lparr>node = ForStatement l1 i1 t1 u1 (BlockStatement (pre1 @
                 ForStatement l2 i2 t2 u2 (BlockStatement (pre2 @
                   ForStatement l3 i3 t3 u3 body # post2)) # post1)),
        ancestors = anc\<rparr> bs
     = Inr (bs @ [nested_loop_finding l1])
   \<and> bottleneck_ForStatement Analyzer
       \<lparr>node = ForStatement l2 i2 t2 u2 (BlockStatement (pre2 @
                 ForStatement l3 i3 t3 u3 body # post2)),
        ancestors = anc'\<rparr> bs
     = Inr (bs @ [nested_loop_finding l2])"
proof -
  have outer: "hasNestedLoop
       \<lparr>node = ForStatement l1 i1 t1 u1 (BlockStatement (pre1 @
                 ForStatement l2 i2 t2 u2 (BlockStatement (pre2 @
                   ForStatement l3 i3 t3 u3 body # post2)) # post1)),
        ancestors = anc\<rparr> = Inr True"
    by (rule for_body_has_loop) (simp add: loopTypes_def)
  have middle: "hasNestedLoop
       \<lparr>node = ForStatement l2 i2 t2 u2 (BlockStatement (pre2 @
                 ForStatement l3 i3 t3 u3 body # post2)),
        ancestors = anc'\<rparr> = Inr True"
    by (rule for_body_has_loop) (simp add: loopTypes_def)
  show ?thesis
    unfolding bottleneck_ForStatement_def nested_loop_finding_def
    by (simp add: outer middle) (simp add: hasNestedLoop_eq)
qed

text \<open>
  A triply-nested \<open>for\<close> loop does not yield exactly one nested-loop finding: the
  detector returns none, and the rule itself holds of two of the three loops.
\<close>

theorem nested_loop_dedup_counterexample:
  "length (filter (\<lambda>b. ftype b = ''nested-loop'')
            (detectBottlenecks triple_for_parser ''for(;;){for(;;){for(;;){}}}'' ''a.js'')) \<noteq> 1
   \<and> detectBottlenecks triple_for_parser ''for(;;){for(;;){for(;;){}}}'' ''a.js'' = []
   \<and> map line (case visit bottleneck_visitor Analyzer (paths_from [] triple_for) [] of
                 Inr bs \<Rightarrow> bs | Inl e \<Rightarrow> [])
     = [Some 1, Some 2]"
  by (simp add: detectBottlenecks_def triple_for_parser_def triple_for_def traverse_def
      bottleneck_visitor_def bottleneck_ForStatement_def opt_list_def hasNestedLoop_eq
      loopTypes_def)

section \<open>Long method chains\<close>

lemma method_chain_snoc:
  "method_chain base (calls @ [(l, m, args)]) =
     CallExpression l (MemberExpression (method_chain base calls) (Identifier m)) args"
  by (induction calls arbitrary: base) auto

lemma chain_loop_method_chain:
  assumes "ntype base \<noteq> ''CallExpression''"
  shows "calls \<noteq> [] \<Longrightarrow> chain_loop (method_chain base calls) k = k + length calls"
proof (induction calls arbitrary: k rule: rev_induct)
  case Nil
  then show ?case by simp
next
  case (snoc c calls)
  obtain l m args where c: "c = (l, m, args)"
    by (cases c)
  show ?case
  proof (cases "calls = []")
    case True
    with c assms show ?thesis by simp
  next
    case False
    then obtain c' calls' where "calls = calls' @ [c']"
      by (metis rev_exhaust)
    then have "ntype (method_chain base calls) = ''CallExpression''"
      by (cases c') (simp add: method_chain_snoc)
    with c False snoc.IH [of "k + 1"] show ?thesis
      by (simp add: method_chain_snoc)
  qed
qed

text \<open>
  Claim C4, as the code has it. The array-chain rule, the first \<open>CallExpression\<close> handler
  with the analyzer as its receiver, looks only at calls whose callee is a member access
  named \<open>map\<close>, \<open>filter\<close>, \<open>reduce\<close>, \<open>forEach\<close>, \<open>find\<close>, \<open>some\<close> or \<open>every\<close>. For such a call
  whose measured chain length \<open>n\<close> exceeds 3 it records one \<open>array-chain\<close> finding at medium
  severity whose message is \<open>Long array method chain (n methods)\<close>; for every other call it
  records nothing. The measured length of \<open>base.m1(...)...mn(...)\<close>, where \<open>base\<close> is no call,
  is \<open>n\<close>.
\<close>

theorem array_chain_rule:
  "(isArrayMethodChain p \<and> getChainLength p > 3 \<longrightarrow>
      bottleneck_CallExpression_chain Analyzer p bs =
        Inr (bs @ [array_chain_finding (loc_start_line (node p)) (getChainLength p)]))
   \<and> (\<not> (isArrayMethodChain p \<and> getChainLength p > 3) \<longrightarrow>
      bottleneck_CallExpression_chain Analyzer p bs = Inr bs)
   \<and> (ntype base \<noteq> ''CallExpression'' \<longrightarrow>
      getChainLength \<lparr>node = method_chain base (calls @ [(l, m, args)]), ancestors = anc\<rparr>
        = length calls + 1
      \<and> isArrayMethodChain
          \<lparr>node = method_chain base (calls @ [(l, m, args)]), ancestors = anc\<rparr>
        = (m \<in> set chainMethods)
      \<and> bottleneck_CallExpression_chain Analyzer
          \<lparr>node = method_chain base (calls @ [(l, m, args)]), ancestors = anc\<rparr> bs
        = Inr (if m \<in> set chainMethods \<and> length calls + 1 > 3
               then bs @ [array_chain_finding l (length calls + 1)] else bs))"
proof -
  have len: "getChainLength
      \<lparr>node = method_chain base (calls @ [(l, m, args)]), ancestors = anc\<rparr>
        = length calls + 1"
    if "ntype base \<noteq> ''CallExpression''"
    using chain_loop_method_chain [OF that, of "calls @ [(l, m, args)]" 0]
    by (simp add: getChainLength_def)
  have arr: "isArrayMethodChain
      \<lparr>node = method_chain base (calls @ [(l, m, args)]), ancestors = anc\<rparr>
        = (m \<in> set chainMethods)"
    by (simp add: isArrayMethodChain_def method_chain_snoc includes_name_def)
  have line: "loc_start_line (method_chain base (calls @ [(l, m, args)])) = l"
    by (simp add: method_chain_snoc)
  show ?thesis
    using len
    by (simp add: bottleneck_CallExpression_chain_def array_chain_finding_def Let_def arr line)
qed

theorem array_chain_rule_witness:
  "isArrayMethodChain \<lparr>node = array_chain, ancestors = []\<rparr>
   \<and> getChainLength \<lparr>node = array_chain, ancestors = []\<rparr> = 4
   \<and> bottleneck_CallExpression_chain Analyzer \<lparr>node = array_chain, ancestors = []\<rparr> [] =
       Inr [\<lparr>ftype = ''array-chain'', severity = ''medium'', line = Some 1,
             message = ''Long array method chain (4 methods)'',
             suggestion = ''Consider combining operations or using for-loop for better performance''\<rparr>]
   \<and> \<not> isArrayMethodChain \<lparr>node = promise_chain, ancestors = []\<rparr>
   \<and> bottleneck_CallExpression_chain Analyzer \<lparr>node = promise_chain, ancestors = []\<rparr> [] =
       Inr []
   \<and> ntype (Identifier ''a'') \<noteq> ''CallExpression''
   \<and> bottleneck_CallExpression_chain Analyzer
        \<lparr>node = method_chain (Identifier ''a'') (inner_calls @ [(Some 2, ''reduce'', [])]),
         ancestors = []\<rparr> [] =
       Inr [array_chain_finding (Some 2) 4]"
proof -
  have a: "isArrayMethodChain \<lparr>node = array_chain, ancestors = []\<rparr>"
    by (simp add: isArrayMethodChain_def array_chain_def method_call_def includes_name_def
        chainMethods_def)
  have n: "getChainLength \<lparr>node = array_chain, ancestors = []\<rparr> = 4"
    by (simp add: getChainLength_def array_chain_def method_call_def)
  have p: "\<not> isArrayMethodChain \<lparr>node = promise_chain, ancestors = []\<rparr>"
    by (simp add: isArrayMethodChain_def promise_chain_def method_call_def includes_name_def
        chainMethods_def)
  have l: "loc_start_line array_chain = Some 1"
    by (simp add: array_chain_def method_call_def)
  have s: "string_of_nat 4 = ''4''"
    by (simp add: string_of_nat.simps digit_char_def)
  have b: "ntype (Identifier ''a'') \<noteq> ''CallExpression''"
    by simp
  have r: "''reduce'' \<in> set chainMethods"
    by (simp add: chainMethods_def)
  have c: "length inner_calls + 1 = 4"
    by (simp add: inner_calls_def)
  have first: "bottleneck_CallExpression_chain Analyzer \<lparr>node = array_chain, ancestors = []\<rparr> [] =
       Inr [\<lparr>ftype = ''array-chain'', severity = ''medium'', line = Some 1,
             message = ''Long array method chain (4 methods)'',
             suggestion = ''Consider combining operations or using for-loop for better performance''\<rparr>]
     \<and> bottleneck_CallExpression_chain Analyzer \<lparr>node = promise_chain, ancestors = []\<rparr> [] =
       Inr []"
    using a n p
      array_chain_rule [of "\<lparr>node = array_chain, ancestors = []\<rparr>" "[]"]
      array_chain_rule [of "\<lparr>node = promise_chain, ancestors = []\<rparr>" "[]"]
    by (simp add: array_chain_finding_def l s)
  from b array_chain_rule [of "\<lparr>node = array_chain, ancestors = []\<rparr>" "[]" "Identifier ''a''"
        inner_calls "Some 2" "''reduce''" "[]" "[]"]
  have "bottleneck_CallExpression_chain Analyzer
        \<lparr>node = method_chain (Identifier ''a'') (inner_calls @ [(Some 2, ''reduce'', [])]),
         ancestors = []\<rparr> []
        = Inr (if ''reduce'' \<in> set chainMethods \<and> length inner_calls + 1 > 3
               then [] @ [array_chain_finding (Some 2) (length inner_calls + 1)]
               else [])"
    by blast
  then have second: "bottleneck_CallExpression_chain Analyzer
        \<lparr>node = method_chain (Identifier ''a'') (inner_calls @ [(Some 2, ''reduce'', [])]),
         ancestors = []\<rparr> [] =
       Inr [array_chain_finding (Some 2) 4]"
    unfolding c using r by simp
  from a n p b first second show ?thesis
    by (intro conjI) simp_all
qed

text \<open>
  The chain \<open>p.then(f).then(f).then(f).catch(f)\<close> has measured length 4 and yields no
  finding: the detector returns none, and the rule itself does not apply to it.
\<close>

theorem long_chain_counterexample:
  "getChainLength \<lparr>node = promise_chain, ancestors = []\<rparr> = 4
   \<and> detectBottlenecks (statement_parser promise_chain)
        ''p.then(f).then(f).then(f).catch(f)'' ''a.js'' = []
   \<and> bottleneck_CallExpression_chain Analyzer
        \<lparr>node = promise_chain,
         ancestors = [ExpressionStatement promise_chain,
                      Program [ExpressionStatement promise_chain],
                      File (Program [ExpressionStatement promise_chain])]\<rparr> [] = Inr []"
  by (simp add: getChainLength_def promise_chain_def method_call_def detectBottlenecks_def
      statement_parser_def traverse_def bottleneck_visitor_def
      bottleneck_CallExpression_dom_def bottleneck_CallExpression_chain_def
      isArrayMethodChain_def includes_name_def chainMethods_def)

section \<open>DOM calls in loops\<close>

lemma isInLoop_parent_only:
  "isInLoop p = (case parent p of None \<Rightarrow> False | Some n \<Rightarrow> ntype n \<in> set loopTypes)"
  by (simp add: isInLoop_def node_parent_def split: option.splits)

text \<open>
  Claim C5 at \<open>for(;;){ document.getElementById('x'); }\<close>. The call is on the allowlist
  and has a \<open>for\<close> statement among its ancestors, yet \<open>isInLoop\<close> is false of it (its parent
  node is the expression statement, and that node has no \<open>parent\<close> field to go on with), the
  rule records nothing even with the analyzer as its receiver, and the detector returns no
  finding.
\<close>

theorem dom_in_loop_missed:
  "dom_call_path \<in> set (paths_from [] dom_in_for)
   \<and> isDOMManipulation dom_call_path
   \<and> list_ex (\<lambda>a. ntype a \<in> set loopTypes) (ancestors dom_call_path)
   \<and> isInLoop dom_call_path = False
   \<and> bottleneck_CallExpression_dom Analyzer dom_call_path [] = Inr []
   \<and> detectBottlenecks (\<lambda>plugins code. Inr dom_in_for)
        ''for(;;){ document.getElementById(x); }'' ''a.js'' = []"
  by (simp add: dom_call_path_def dom_in_for_def dom_call_def isDOMManipulation_def
      includes_name_def domMethods_def loopTypes_def isInLoop_parent_only parent_def
      bottleneck_CallExpression_dom_def detectBottlenecks_def traverse_def
      bottleneck_visitor_def bottleneck_ForStatement_def opt_list_def)

section \<open>Event listeners\<close>

text \<open>
  Claim C3 at \<open>el.addEventListener('click', fn);\<close>. The scope of the call, the program,
  holds no \<open>removeEventListener\<close> call, and the event-listener rule with the analyzer as
  its receiver records one \<open>event-listener\<close> finding at medium severity. The visitor
  literal names \<open>CallExpression\<close> twice, so the handler it keeps is the timer rule, and the
  detector returns no finding.
\<close>

theorem event_listener_leak_missed:
  "listener_path \<in> set (paths_from [] listener_file)
   \<and> isEventListener (node listener_path)
   \<and> hasEventCleanup listener_path = Inr False
   \<and> leak_CallExpression_event Analyzer listener_path [] =
       Inr [\<lparr>ftype = ''event-listener'', severity = ''medium'', line = Some 1,
             message = ''Event listener without cleanup'',
             suggestion = ''Add removeEventListener in cleanup function''\<rparr>]
   \<and> leak_visitor ''CallExpression'' = Some leak_CallExpression_timer
   \<and> visit leak_visitor Analyzer (paths_from [] listener_file) [] = Inr []
   \<and> detectMemoryLeaks (\<lambda>plugins code. Inr listener_file)
        ''el.addEventListener(click, fn);'' ''a.js'' = []"
proof -
  have member: "listener_path \<in> set (paths_from [] listener_file)"
    by (simp add: listener_path_def listener_file_def listener_call_def)
  have listener: "isEventListener (node listener_path)"
    by (simp add: listener_path_def listener_call_def isEventListener_def)
  have cleanup: "hasEventCleanup listener_path = Inr False"
    by (simp add: hasEventCleanup_def scope_traverse_def scope_path_def listener_path_def
        listener_call_def listener_file_def isScope_def scopableTypes_def patternTypes_def
        functionTypes_def path_traverse_def eventCleanupHandler_def)
  have line: "loc_start_line (node listener_path) = Some 1"
    by (simp add: listener_path_def listener_call_def)
  have rule: "leak_CallExpression_event Analyzer listener_path [] =
       Inr [\<lparr>ftype = ''event-listener'', severity = ''medium'', line = Some 1,
             message = ''Event listener without cleanup'',
             suggestion = ''Add removeEventListener in cleanup function''\<rparr>]"
    by (simp add: leak_CallExpression_event_def listener cleanup line)
  have kept: "leak_visitor ''CallExpression'' = Some leak_CallExpression_timer"
    by (simp add: leak_visitor_def)
  have run: "visit leak_visitor Analyzer (paths_from [] listener_file) [] = Inr []"
    by (simp add: listener_file_def listener_call_def leak_visitor_def
        leak_CallExpression_timer_def isTimer_def)
  have detect: "detectMemoryLeaks (\<lambda>plugins code. Inr listener_file)
        ''el.addEventListener(click, fn);'' ''a.js'' = []"
    by (simp add: detectMemoryLeaks_def traverse_def listener_file_def listener_call_def
        leak_visitor_def leak_CallExpression_timer_def)
  from member listener cleanup rule kept run detect show ?thesis
    by (intro conjI)
qed

section \<open>Heavy imports\<close>

lemma str_includes_sublist: "str_includes s lib = sublist lib s"
  by (induction s) (auto simp: sublist_Cons_right)

lemma import_rule:
  "bundle_ImportDeclaration Analyzer (import_path specs src anc) (imps, heavy) =
     Inr (imps @ [import_entry specs src],
          if isHeavyLibrary src
          then heavy @ [\<lparr>library = src, estimatedSize = getLibrarySize src,
                         alternative = suggestAlternative src\<rparr>]
          else heavy)"
  by (simp add: bundle_ImportDeclaration_def import_path_def import_entry_def Let_def)

text \<open>
  Claim C7, as the code has it. For an import whose source path contains \<open>moment\<close> and
  not \<open>lodash\<close>, the import rule (the \<open>ImportDeclaration\<close> handler with the analyzer as its
  receiver) records exactly one heavy import, of estimated size 67KB and with the
  alternative \<open>Use date-fns or dayjs (2KB vs 67KB)\<close>. For an import whose source path
  contains none of the eight heavy-library names the rule records none, and for a file
  all of whose imports are such the detector reports no heavy import.
\<close>

theorem heavy_import_rule:
  "(str_includes src ''moment'' \<and> \<not> str_includes src ''lodash'' \<longrightarrow>
      bundle_ImportDeclaration Analyzer (import_path specs src anc) (imps, heavy) =
        Inr (imps @ [import_entry specs src],
             heavy @ [\<lparr>library = src, estimatedSize = ''67KB'',
                       alternative = ''Use date-fns or dayjs (2KB vs 67KB)''\<rparr>]))
   \<and> (\<not> list_ex (\<lambda>lib. str_includes src lib) heavyLibs \<longrightarrow>
      bundle_ImportDeclaration Analyzer (import_path specs src anc) (imps, heavy) =
        Inr (imps @ [import_entry specs src], heavy))
   \<and> (parse [''typescript'', ''jsx''] code = Inr ast
       \<and> \<not> list_ex isHeavyLibrary (import_sources ast) \<longrightarrow>
      heavyImports (analyzeBundleImpact parse code file) = Some [])"
proof (intro conjI impI)
  assume a: "str_includes src ''moment'' \<and> \<not> str_includes src ''lodash''"
  then have "isHeavyLibrary src"
    by (simp add: isHeavyLibrary_def heavyLibs_def)
  moreover from a have "getLibrarySize src = ''67KB''"
    by (simp add: getLibrarySize_def sizes_def)
  moreover from a have "suggestAlternative src = ''Use date-fns or dayjs (2KB vs 67KB)''"
    by (simp add: suggestAlternative_def alternatives_def)
  ultimately show "bundle_ImportDeclaration Analyzer (import_path specs src anc) (imps, heavy) =
        Inr (imps @ [import_entry specs src],
             heavy @ [\<lparr>library = src, estimatedSize = ''67KB'',
                       alternative = ''Use date-fns or dayjs (2KB vs 67KB)''\<rparr>])"
    by (simp add: import_rule)
next
  assume "\<not> list_ex (\<lambda>lib. str_includes src lib) heavyLibs"
  then show "bundle_ImportDeclaration Analyzer (import_path specs src anc) (imps, heavy) =
        Inr (imps @ [import_entry specs src], heavy)"
    by (simp add: import_rule isHeavyLibrary_def)
next
  show "heavyImports (analyzeBundleImpact parse code file) = Some []"
    by (rule analyzeBundleImpact_heavy)
qed

theorem heavy_import_rule_witness:
  "str_includes ''moment'' ''moment'' \<and> \<not> str_includes ''moment'' ''lodash''
   \<and> bundle_ImportDeclaration Analyzer
        (import_path [ImportDefaultSpecifier (Identifier ''m'')] ''moment'' []) ([], []) =
       Inr ([\<lparr>source = ''moment'', specifiers = [Some ''m''], isDefaultImport = True,
               isNamespaceImport = False\<rparr>],
            [\<lparr>library = ''moment'', estimatedSize = ''67KB'',
              alternative = ''Use date-fns or dayjs (2KB vs 67KB)''\<rparr>])
   \<and> \<not> list_ex (\<lambda>lib. str_includes ''left-pad'' lib) heavyLibs
   \<and> bundle_ImportDeclaration Analyzer
        (import_path [ImportDefaultSpecifier (Identifier ''pad'')] ''left-pad'' []) ([], []) =
       Inr ([\<lparr>source = ''left-pad'', specifiers = [Some ''pad''], isDefaultImport = True,
               isNamespaceImport = False\<rparr>], [])
   \<and> \<not> list_ex isHeavyLibrary (import_sources left_pad_import)
   \<and> heavyImports (analyzeBundleImpact (\<lambda>plugins code. Inr left_pad_import)
        ''import pad from left-pad'' ''a.js'') = Some []"
proof -
  have m: "str_includes ''moment'' ''moment'' \<and> \<not> str_includes ''moment'' ''lodash''"
    by simp
  have l: "\<not> list_ex (\<lambda>lib. str_includes ''left-pad'' lib) heavyLibs"
    by (simp add: heavyLibs_def)
  have s: "\<not> list_ex isHeavyLibrary (import_sources left_pad_import)"
    by (simp add: import_sources_def left_pad_import_def opt_list_def isHeavyLibrary_def
        heavyLibs_def)
  show ?thesis
    using m l s
      heavy_import_rule [of "''moment''" "[ImportDefaultSpecifier (Identifier ''m'')]" "[]"
        "[]" "[]" "\<lambda>plugins code. Inr left_pad_import" "''import pad from left-pad''"
        left_pad_import "''a.js''"]
      heavy_import_rule [of "''left-pad''" "[ImportDefaultSpecifier (Identifier ''pad'')]" "[]"
        "[]" "[]" "\<lambda>plugins code. Inr left_pad_import" "''import pad from left-pad''"
        left_pad_import "''a.js''"]
    by (simp add: import_entry_def)
qed

text \<open>
  The source path \<open>./lodash/moment-utils\<close> contains \<open>moment\<close>, yet no heavy import with a date
  library for alternative comes of it: the detector reports none, and the rule itself
  suggests the alternative of \<open>lodash\<close>, the first name of the table that the path contains.
\<close>

theorem heavy_import_counterexample:
  "str_includes ''./lodash/moment-utils'' ''moment''
   \<and> heavyImports (analyzeBundleImpact (\<lambda>plugins code. Inr moment_import)
        ''import m from ./lodash/moment-utils'' ''a.js'') = Some []
   \<and> suggestAlternative ''./lodash/moment-utils'' =
       ''Use native ES6 methods or lodash-es for tree shaking''
   \<and> \<not> str_includes (suggestAlternative ''./lodash/moment-utils'') ''date-fns''
   \<and> \<not> str_includes (suggestAlternative ''./lodash/moment-utils'') ''dayjs''"
proof -
  have alt: "suggestAlternative ''./lodash/moment-utils'' =
       ''Use native ES6 methods or lodash-es for tree shaking''"
    by (simp add: suggestAlternative_def alternatives_def)
  show ?thesis
    unfolding alt by (simp add: analyzeBundleImpact_heavy)
qed

text \<open>
  Claim C10, as the code has it. A source path that contains \<open>axios\<close> or
  \<open>react-router-dom\<close> is classified as a heavy library. When it contains none of the six
  names of the size and alternative tables, its estimated size is \<open>Unknown\<close> and its
  alternative \<open>Consider lighter alternatives\<close>, the import rule with the analyzer as its
  receiver records one heavy import carrying the two, and a result whose only finding is
  that heavy import scores 95.
\<close>

theorem unlisted_heavy_library:
  assumes "str_includes src ''axios'' \<or> str_includes src ''react-router-dom''"
  shows "isHeavyLibrary src
   \<and> (\<not> list_ex (\<lambda>lib. str_includes src lib) (map fst sizes) \<longrightarrow>
        getLibrarySize src = ''Unknown''
        \<and> suggestAlternative src = ''Consider lighter alternatives''
        \<and> bundle_ImportDeclaration Analyzer (import_path specs src anc) (imps, heavy) =
            Inr (imps @ [import_entry specs src],
                 heavy @ [\<lparr>library = src, estimatedSize = ''Unknown'',
                           alternative = ''Consider lighter alternatives''\<rparr>])
        \<and> score_of (Some []) []
            (Some [\<lparr>library = src, estimatedSize = ''Unknown'',
                     alternative = ''Consider lighter alternatives''\<rparr>]) = 95)"
proof -
  have heavy: "isHeavyLibrary src"
    using assms by (auto simp: isHeavyLibrary_def heavyLibs_def)
  have "getLibrarySize src = ''Unknown''
        \<and> suggestAlternative src = ''Consider lighter alternatives''"
    if "\<not> list_ex (\<lambda>lib. str_includes src lib) (map fst sizes)"
    using that
    by (simp add: sizes_def getLibrarySize_def suggestAlternative_def alternatives_def)
  then show ?thesis
    using heavy by (simp add: import_rule score_of_def or_empty_def)
qed

theorem unlisted_heavy_library_witness:
  "(str_includes ''axios'' ''axios'' \<or> str_includes ''axios'' ''react-router-dom'')
   \<and> \<not> list_ex (\<lambda>lib. str_includes ''axios'' lib) (map fst sizes)
   \<and> isHeavyLibrary ''axios''
   \<and> getLibrarySize ''axios'' = ''Unknown''
   \<and> suggestAlternative ''axios'' = ''Consider lighter alternatives''
   \<and> bundle_ImportDeclaration Analyzer
        (import_path [ImportDefaultSpecifier (Identifier ''axios'')] ''axios'' []) ([], []) =
       Inr ([\<lparr>source = ''axios'', specifiers = [Some ''axios''], isDefaultImport = True,
               isNamespaceImport = False\<rparr>],
            [\<lparr>library = ''axios'', estimatedSize = ''Unknown'',
              alternative = ''Consider lighter alternatives''\<rparr>])"
proof -
  have a: "str_includes ''axios'' ''axios'' \<or> str_includes ''axios'' ''react-router-dom''"
    by simp
  have n: "\<not> list_ex (\<lambda>lib. str_includes ''axios'' lib) (map fst sizes)"
    by (simp add: sizes_def)
  show ?thesis
    using n unlisted_heavy_library [OF a, of "[ImportDefaultSpecifier (Identifier ''axios'')]"
        "[]" "[]" "[]"] a
    by (simp add: import_entry_def)
qed

text \<open>
  The source path \<open>./bootstrap/axios\<close> contains \<open>axios\<close>, yet its estimated size is 158KB and
  its alternative that of \<open>bootstrap\<close>, and the detector reports no heavy import for it.
\<close>

theorem unlisted_heavy_library_counterexample:
  "str_includes ''./bootstrap/axios'' ''axios''
   \<and> getLibrarySize ''./bootstrap/axios'' = ''158KB''
   \<and> suggestAlternative ''./bootstrap/axios'' = ''Use Tailwind CSS or CSS Modules''
   \<and> heavyImports (analyzeBundleImpact
        (\<lambda>plugins code. Inr (File (Program [ImportDeclaration
            [ImportDefaultSpecifier (Identifier ''a'')] (StringLiteral ''./bootstrap/axios'')])))
        ''import a from ./bootstrap/axios'' ''a.js'') = Some []"
  by (simp add: getLibrarySize_def sizes_def suggestAlternative_def alternatives_def
      analyzeBundleImpact_heavy)

section \<open>The project grade\<close>

lemma analyzeFile_effect:
  "analyzeFile cfg rt file st = (r, st') \<Longrightarrow>
     stored_results st' = stored_results st
     \<and> totalScore st' = totalScore st + (case r of None \<Rightarrow> 0 | Some a \<Rightarrow> overallScore a)"
  by (auto simp: analyzeFile_def updateGlobalStats_def Let_def
      split: if_splits sum.splits prod.splits)

lemma analyzePattern_total:
  "totalScore (snd (analyzePattern cfg rt files acc))
     - sum_list (map overallScore (stored_results (snd (analyzePattern cfg rt files acc))))
   = totalScore (snd acc) - sum_list (map overallScore (stored_results (snd acc)))"
proof (induction files arbitrary: acc)
  case Nil
  show ?case by simp
next
  case (Cons f fs)
  obtain r st' where af: "analyzeFile cfg rt f (snd acc) = (r, st')"
    by (cases "analyzeFile cfg rt f (snd acc)")
  note eff = analyzeFile_effect [OF af]
  show ?case
  proof (cases r)
    case None
    with af eff Cons.IH [of "(fst acc, st')"] show ?thesis by simp
  next
    case (Some a)
    with af eff
      Cons.IH [of "(fst acc @ [a], st'\<lparr>stored_results := stored_results st' @ [a]\<rparr>)"]
    show ?thesis by simp
  qed
qed

lemma round_mean_nearest:
  assumes "0 < n"
  shows "(2 * round_mean t n - 1) * int n \<le> 2 * t \<and> 2 * t < (2 * round_mean t n + 1) * int n"
proof -
  define q where "q = (2 * t + int n) div (2 * int n)"
  define r where "r = (2 * t + int n) mod (2 * int n)"
  have "2 * t + int n = 2 * int n * q + r"
    unfolding q_def r_def by simp
  moreover have "0 \<le> r" "r < 2 * int n"
    using assms unfolding r_def by simp_all
  ultimately show ?thesis
    unfolding round_mean_def q_def [symmetric] by (simp add: algebra_simps)
qed

text \<open>
  Claim C6. The summary's average score is the total of the stored scores divided by the
  number of stored reports and rounded to the nearest integer (0 when there is none); after
  \<open>analyzePattern\<close> that total is the sum of the per-file scores. The grade follows from
  the average by the bands 90, 80, 70, 60 and 50: an average of 85 gives \<open>A\<close>, 55 gives
  \<open>D\<close> and 40 gives \<open>F\<close>.
\<close>

theorem project_grade:
  "averageScore (generateUltimateSummary rt st) =
     (if stored_results st = [] then 0
      else round_mean (totalScore st) (length (stored_results st)))
   \<and> (stored_results st \<noteq> [] \<longrightarrow>
        (2 * averageScore (generateUltimateSummary rt st) - 1) * int (length (stored_results st))
          \<le> 2 * totalScore st
        \<and> 2 * totalScore st
          < (2 * averageScore (generateUltimateSummary rt st) + 1)
              * int (length (stored_results st)))
   \<and> totalScore (snd (analyzePattern cfg rt files ([], new_analyzer))) =
       sum_list (map overallScore
         (stored_results (snd (analyzePattern cfg rt files ([], new_analyzer)))))
   \<and> grade (generateUltimateSummary rt st) =
       (if averageScore (generateUltimateSummary rt st) \<ge> 90 then ''A+''
        else if averageScore (generateUltimateSummary rt st) \<ge> 80 then ''A''
        else if averageScore (generateUltimateSummary rt st) \<ge> 70 then ''B''
        else if averageScore (generateUltimateSummary rt st) \<ge> 60 then ''C''
        else if averageScore (generateUltimateSummary rt st) \<ge> 50 then ''D''
        else ''F'')
   \<and> (averageScore (generateUltimateSummary rt st) = 85 \<longrightarrow>
        grade (generateUltimateSummary rt st) = ''A'')
   \<and> (averageScore (generateUltimateSummary rt st) = 55 \<longrightarrow>
        grade (generateUltimateSummary rt st) = ''D'')
   \<and> (averageScore (generateUltimateSummary rt st) = 40 \<longrightarrow>
        grade (generateUltimateSummary rt st) = ''F'')"
proof -
  have avg: "averageScore (generateUltimateSummary rt st) =
     (if stored_results st = [] then 0
      else round_mean (totalScore st) (length (stored_results st)))"
    by (simp add: generateUltimateSummary_def Let_def)
  have near: "(2 * averageScore (generateUltimateSummary rt st) - 1)
          * int (length (stored_results st)) \<le> 2 * totalScore st
        \<and> 2 * totalScore st
          < (2 * averageScore (generateUltimateSummary rt st) + 1)
              * int (length (stored_results st))"
    if "stored_results st \<noteq> []"
    using that round_mean_nearest [of "length (stored_results st)" "totalScore st"]
    by (simp add: avg)
  have total: "totalScore (snd (analyzePattern cfg rt files ([], new_analyzer))) =
       sum_list (map overallScore
         (stored_results (snd (analyzePattern cfg rt files ([], new_analyzer)))))"
    using analyzePattern_total [of cfg rt files "([], new_analyzer)"]
    by (simp add: new_analyzer_def)
  have bands: "grade (generateUltimateSummary rt st) =
       (if averageScore (generateUltimateSummary rt st) \<ge> 90 then ''A+''
        else if averageScore (generateUltimateSummary rt st) \<ge> 80 then ''A''
        else if averageScore (generateUltimateSummary rt st) \<ge> 70 then ''B''
        else if averageScore (generateUltimateSummary rt st) \<ge> 60 then ''C''
        else if averageScore (generateUltimateSummary rt st) \<ge> 50 then ''D''
        else ''F'')"
    by (simp add: generateUltimateSummary_def Let_def)
  show ?thesis
    using near total by (simp add: avg [symmetric] bands)
qed

theorem project_grade_witness:
  "averageScore (generateUltimateSummary bad_runtime (sample_analyzer [90, 80])) = 85
   \<and> grade (generateUltimateSummary bad_runtime (sample_analyzer [90, 80])) = ''A''
   \<and> averageScore (generateUltimateSummary bad_runtime (sample_analyzer [55])) = 55
   \<and> grade (generateUltimateSummary bad_runtime (sample_analyzer [55])) = ''D''
   \<and> averageScore (generateUltimateSummary bad_runtime (sample_analyzer [30, 50, 40])) = 40
   \<and> grade (generateUltimateSummary bad_runtime (sample_analyzer [30, 50, 40])) = ''F''
   \<and> stored_results (sample_analyzer [90, 81]) \<noteq> []
   \<and> averageScore (generateUltimateSummary bad_runtime (sample_analyzer [90, 81])) = 86"
proof -
  have a: "averageScore (generateUltimateSummary bad_runtime (sample_analyzer [90, 80])) = 85"
    by (simp add: generateUltimateSummary_def sample_analyzer_def round_mean_def Let_def)
  have d: "averageScore (generateUltimateSummary bad_runtime (sample_analyzer [55])) = 55"
    by (simp add: generateUltimateSummary_def sample_analyzer_def round_mean_def Let_def)
  have f: "averageScore (generateUltimateSummary bad_runtime (sample_analyzer [30, 50, 40])) = 40"
    by (simp add: generateUltimateSummary_def sample_analyzer_def round_mean_def Let_def)
  have n: "stored_results (sample_analyzer [90, 81]) \<noteq> []"
    by (simp add: sample_analyzer_def)
  have t: "totalScore (sample_analyzer [90, 81]) = 171"
    "length (stored_results (sample_analyzer [90, 81])) = 2"
    by (simp_all add: sample_analyzer_def)
  have "(2 * averageScore (generateUltimateSummary bad_runtime (sample_analyzer [90, 81])) - 1)
          * int (length (stored_results (sample_analyzer [90, 81])))
          \<le> 2 * totalScore (sample_analyzer [90, 81])
        \<and> 2 * totalScore (sample_analyzer [90, 81])
          < (2 * averageScore (generateUltimateSummary bad_runtime (sample_analyzer [90, 81])) + 1)
              * int (length (stored_results (sample_analyzer [90, 81])))"
    using n project_grade [of bad_runtime "sample_analyzer [90, 81]"] by blast
  then have r: "averageScore (generateUltimateSummary bad_runtime (sample_analyzer [90, 81])) = 86"
    unfolding t by simp
  show ?thesis
    using a d f n r
      project_grade [of bad_runtime "sample_analyzer [90, 80]"]
      project_grade [of bad_runtime "sample_analyzer [55]"]
      project_grade [of bad_runtime "sample_analyzer [30, 50, 40]"]
    by simp
qed

section \<open>Files that do not parse\<close>

text \<open>What the detectors return when the parser throws.\<close>

lemma detectors_parse_failure:
  assumes "parse [''typescript'', ''jsx''] code = Inl e"
  shows "detectBottlenecks parse code file = []"
    and "detectMemoryLeaks parse code file = []"
    and "analyzeBundleImpact parse code file =
           \<lparr>bundle_imports = [], heavyImports = Some [],
            bundle_error = Some (error_message e)\<rparr>"
  using assms
  by (simp_all add: detectBottlenecks_def detectMemoryLeaks_def analyzeBundleImpact_def)

lemma react_parse_failure:
  assumes "parse [''jsx'', ''typescript'', ''decorators-legacy''] code = Inl e"
  shows "analyzeReactComponent parse code file =
           \<lparr>issues = [], recommendations = [], react_error = Some (error_message e)\<rparr>"
  using assms by (simp add: analyzeReactComponent_def)

lemma analyzeCode_parse_failure:
  assumes "parse [''typescript'', ''jsx''] code = Inl e"
    and "parse [''jsx'', ''typescript'', ''decorators-legacy''] code = Inl e'"
  shows "analyzeCode parse ext code file = failed_results file (ext file) code e e'"
  using detectors_parse_failure [of parse code e "file"]
    react_parse_failure [of parse code e' "file"]
    assms
  by (simp add: analyzeCode_def failed_results_def Let_def calculatePerformanceScore_def
      score_of_def or_empty_def)

lemma script_not_binary: "ext \<in> set scriptExtensions \<Longrightarrow> \<not> isBinaryFile ext"
  by (auto simp: scriptExtensions_def isBinaryFile_def toLowerCase_def upper_letters_def
      lower_letters_def)

text \<open>
  Claim C8, as the code has it. For a script file that is not excluded, exists, is not
  too large and can be read, and whose non-empty text the parser rejects, \<open>analyzeFile\<close>
  returns a report and updates the statistics with it; no exception leaves it. The
  traditional metrics of the report are computed from the raw text. The advanced analysis
  is absent only when the configuration switches it off; otherwise it is present and
  empty: no bottleneck, no leak, no import, the parser's message as the bundle error, and
  a score of 100, which is also the score of the report.
\<close>

theorem parse_failure_report:
  assumes "babel_parse rt [''typescript'', ''jsx''] content = Inl e"
    and "babel_parse rt [''jsx'', ''typescript'', ''decorators-legacy''] content = Inl e'"
    and "\<not> shouldExclude cfg rt file"
    and "existsSync rt file"
    and "statSync_size rt file \<le> 5000000"
    and "extname rt file \<in> set scriptExtensions"
    and "readFileSync rt file = Inr content"
    and "content \<noteq> []"
  shows "\<exists>a. analyzeFile cfg rt file st = (Some a, updateGlobalStats a st)
     \<and> traditionalAnalysis a =
         Some \<lparr>lines = length (split_lines content),
               chars = length content,
               function_count = match_count rt FunctionsRe content,
               loops = match_count rt LoopsRe content,
               import_count = match_count rt ImportsRe content,
               complexity = calculateBasicComplexity rt content,
               todos = match_count rt TodosRe content,
               duplicatedCode = detectDuplicatedCode content\<rparr>
     \<and> advanced a =
         (if analysis_performance cfg
          then Some (failed_results file (extname rt file) content e e')
          else None)
     \<and> (if analysis_performance cfg then overallScore a = 100 else True)"
proof -
  have nb: "\<not> isBinaryFile (extname rt file)"
    using assms(6) by (rule script_not_binary)
  have ra: "read_and_analyze cfg rt file =
      Inr (content,
           if analysis_performance cfg
           then Some (failed_results file (extname rt file) content e e') else None)"
    using assms(1,2,6,7)
      analyzeCode_parse_failure [of "babel_parse rt" content e e' "extname rt" "file"]
    by (simp add: read_and_analyze_def)
  show ?thesis
    using assms(3,4,5,8) nb
    by (simp add: analyzeFile_def ra Let_def getTraditionalAnalysis_def
        calculateOverallScore_def failed_results_def)
qed

theorem parse_failure_report_witness:
  "\<exists>a. analyzeFile defaultConfig bad_runtime ''src/bad.js'' new_analyzer =
          (Some a, updateGlobalStats a new_analyzer)
     \<and> traditionalAnalysis a =
         Some \<lparr>lines = 1, chars = length ''for ('', function_count = 0, loops = 1, import_count = 0,
               complexity = 2, todos = 0, duplicatedCode = 0\<rparr>
     \<and> advanced a =
         Some (failed_results ''src/bad.js'' ''.js'' ''for (''
                 (SyntaxError ''Unexpected token (1:5)'')
                 (SyntaxError ''Unexpected token (1:5)''))
     \<and> overallScore a = 100"
proof -
  have p: "babel_parse bad_runtime [''typescript'', ''jsx''] ''for ('' =
             Inl (SyntaxError ''Unexpected token (1:5)'')"
    "babel_parse bad_runtime [''jsx'', ''typescript'', ''decorators-legacy''] ''for ('' =
             Inl (SyntaxError ''Unexpected token (1:5)'')"
    by (simp_all add: bad_runtime_def)
  have x: "\<not> shouldExclude defaultConfig bad_runtime ''src/bad.js''"
    by (simp add: shouldExclude_def defaultConfig_def bad_runtime_def)
  have o: "existsSync bad_runtime ''src/bad.js''"
    "statSync_size bad_runtime ''src/bad.js'' \<le> 5000000"
    "extname bad_runtime ''src/bad.js'' \<in> set scriptExtensions"
    "readFileSync bad_runtime ''src/bad.js'' = Inr ''for (''"
    "''for ('' \<noteq> []"
    by (simp_all add: bad_runtime_def scriptExtensions_def)
  have m: "length (split_lines ''for ('') = 1"
    "calculateBasicComplexity bad_runtime ''for ('' = 2"
    "detectDuplicatedCode ''for ('' = 0"
    "match_count bad_runtime FunctionsRe ''for ('' = 0"
    "match_count bad_runtime LoopsRe ''for ('' = 1"
    "match_count bad_runtime ImportsRe ''for ('' = 0"
    "match_count bad_runtime TodosRe ''for ('' = 0"
    "extname bad_runtime ''src/bad.js'' = ''.js''"
    "analysis_performance defaultConfig"
    by (simp_all add: calculateBasicComplexity_def complexityKeywords_def bad_runtime_def
        detectDuplicatedCode_def trim_def is_space_def defaultConfig_def)
  show ?thesis
    using parse_failure_report [OF p x o, of new_analyzer] by (simp add: m)
qed

text \<open>
  The report of \<open>src/bad.js\<close>, whose text \<open>for (\<close> does not parse, under the default
  configuration: its advanced analysis is not absent.
\<close>

theorem parse_failure_counterexample:
  "babel_parse bad_runtime [''typescript'', ''jsx''] ''for ('' =
     Inl (SyntaxError ''Unexpected token (1:5)'')
   \<and> readFileSync bad_runtime ''src/bad.js'' = Inr ''for (''
   \<and> (case fst (analyzeFile defaultConfig bad_runtime ''src/bad.js'' new_analyzer) of
         None \<Rightarrow> False
       | Some a \<Rightarrow> advanced a \<noteq> None \<and> traditionalAnalysis a \<noteq> None
                    \<and> overallScore a = 100)"
  by (simp add: bad_runtime_def defaultConfig_def analyzeFile_def shouldExclude_def
      isBinaryFile_def toLowerCase_def upper_letters_def lower_letters_def
      read_and_analyze_def scriptExtensions_def analyzeCode_def detectBottlenecks_def
      detectMemoryLeaks_def analyzeBundleImpact_def calculatePerformanceScore_def
      score_of_def or_empty_def getTraditionalAnalysis_def calculateOverallScore_def Let_def)

end
